theory Spec2Isabelle
  imports Main
begin

section \<open>Data model: pandas scalars, series and frames\<close>

text \<open>
  The program (\<^verbatim>\<open>app.py\<close>) is a Streamlit page around a handful of pandas calls
  (pandas 2.x semantics are modelled).  A scalar read by \<^verbatim>\<open>pd.read_csv\<close> is a text, an
  integer, a boolean or the missing value \<^verbatim>\<open>NaN\<close>.  Python strings are lists of
  characters; a \<^typ>\<open>char\<close> stands for a code point below 256.  Columns of dtype
  \<^verbatim>\<open>float64\<close> (their text form is the floating point \<^verbatim>\<open>repr\<close>) are not modelled.

  A series is the list of its values, a frame the list of its labelled columns in label
  order (pandas stores frames by column; labels may repeat after a selection).  Frames
  built by pandas are rectangular: all columns have the same length.  The model keeps
  values, not dtypes: where pandas would turn a column of integers into floats because a
  row of a merge has no partner, the integers stay as they are.
\<close>

datatype cell = Str string | Num int | Boolean bool | NaN

type_synonym series = "cell list"

type_synonym dataframe = "(string \<times> series) list"

datatype error =
    KeyError string
  | ValueError string
  | MergeError string
  | ParserError string

text \<open>\<^verbatim>\<open>len(df)\<close>: the number of rows.\<close>

definition len :: "dataframe \<Rightarrow> nat" where
  "len df = (case df of [] \<Rightarrow> 0 | (_, s) # _ \<Rightarrow> length s)"

section \<open>Python strings\<close>

text \<open>\<^verbatim>\<open>str.isspace\<close> on one character, for code points below 256.\<close>

definition isspace :: "char \<Rightarrow> bool" where
  "isspace c = (of_char c \<in> {9, 10, 11, 12, 13, 28, 29, 30, 31, 32, 133, 160 :: nat})"

text \<open>\<^verbatim>\<open>str.strip()\<close>: leading and trailing whitespace removed.\<close>

definition strip :: "string \<Rightarrow> string" where
  "strip s = rev (dropWhile isspace (rev (dropWhile isspace s)))"

definition digit_char :: "nat \<Rightarrow> char" where
  "digit_char d = ''0123456789'' ! d"

fun digits :: "nat \<Rightarrow> string" where
  "digits n = (if n < 10 then [digit_char n] else digits (n div 10) @ [digit_char (n mod 10)])"

declare digits.simps [simp del]

text \<open>\<^verbatim>\<open>str(x)\<close> of a scalar, as \<^verbatim>\<open>Series.astype(str)\<close> applies it to every value:
  the missing value becomes the text \<^verbatim>\<open>nan\<close>.\<close>

fun py_str :: "cell \<Rightarrow> string" where
  "py_str (Str s) = s"
| "py_str (Num i) = (if i < 0 then CHR ''-'' # digits (nat (- i)) else digits (nat i))"
| "py_str (Boolean b) = (if b then ''True'' else ''False'')"
| "py_str NaN = ''nan''"

text \<open>\<^verbatim>\<open>pd.notna(x)\<close> on a scalar.\<close>

definition pd_notna :: "cell \<Rightarrow> bool" where
  "pd_notna x = (x \<noteq> NaN)"

text \<open>\<^verbatim>\<open>Series.astype(str)\<close> gives a series of Python strings, \<^verbatim>\<open>.str.strip()\<close> strips
  each of them.\<close>

definition astype_str :: "series \<Rightarrow> string list" where
  "astype_str s = map py_str s"

definition str_strip :: "string list \<Rightarrow> string list" where
  "str_strip ts = map strip ts"

section \<open>Frame operations\<close>

text \<open>
  \<^verbatim>\<open>df[c]\<close>: the column labelled \<^verbatim>\<open>c\<close>; \<^verbatim>\<open>KeyError\<close> when there is none.  Frames read by
  \<^verbatim>\<open>read_csv\<close> have unique labels.  A label that occurs twice (possible after a merge or
  a selection with a repeated label) selects a frame instead of a series, and every use the
  program makes of such a selection raises (\<^verbatim>\<open>.str\<close>, the merge key lookup, the
  \<^verbatim>\<open>DataFrame\<close> constructor); the model raises at the selection.
\<close>

definition getitem :: "dataframe \<Rightarrow> string \<Rightarrow> error + series" where
  "getitem df c =
     (case filter (\<lambda>p. fst p = c) df of
        [] \<Rightarrow> Inl (KeyError c)
      | [p] \<Rightarrow> Inr (snd p)
      | _ \<Rightarrow> Inl (ValueError (''The column label '' @ c @ '' is not unique.'')))"

text \<open>\<^verbatim>\<open>df[c] = s\<close>: replaces the column labelled \<^verbatim>\<open>c\<close>, or appends a new last column.\<close>

fun setitem :: "dataframe \<Rightarrow> string \<Rightarrow> series \<Rightarrow> dataframe" where
  "setitem [] c s = [(c, s)]"
| "setitem (p # df) c s = (if fst p = c then (c, s) # df else p # setitem df c s)"

text \<open>\<^verbatim>\<open>df[[c1, ..., cn]]\<close>: the listed columns, in the listed order.\<close>

fun select :: "dataframe \<Rightarrow> string list \<Rightarrow> error + dataframe" where
  "select df [] = Inr []"
| "select df (c # cs) =
     (case getitem df c of
        Inl e \<Rightarrow> Inl e
      | Inr s \<Rightarrow> (case select df cs of Inl e \<Rightarrow> Inl e | Inr r \<Rightarrow> Inr ((c, s) # r)))"

text \<open>\<^verbatim>\<open>df[mask]\<close> with a boolean series: the rows where the mask is true.\<close>

definition boolean_mask :: "dataframe \<Rightarrow> bool list \<Rightarrow> dataframe" where
  "boolean_mask df m = map (\<lambda>p. (fst p, map fst (filter snd (zip (snd p) m)))) df"

text \<open>\<^verbatim>\<open>s.isin(values)\<close> and \<^verbatim>\<open>s != t\<close> for a text \<^verbatim>\<open>t\<close>, elementwise.\<close>

definition isin :: "series \<Rightarrow> series \<Rightarrow> bool list" where
  "isin s vs = map (\<lambda>x. x \<in> set vs) s"

definition ne_str :: "series \<Rightarrow> string \<Rightarrow> bool list" where
  "ne_str s t = map (\<lambda>x. x \<noteq> Str t) s"

subsection \<open>The left merge\<close>

text \<open>
  \<^verbatim>\<open>pd.merge(left, right, left_on=lk, right_on=rk, how='left')\<close>.
  The join indexers: for every left position, in left order, the right positions with an
  equal key, in right order; a left position without a partner is kept once, with no right
  position (pandas writes \<^verbatim>\<open>-1\<close>).
\<close>

definition join_indexers :: "series \<Rightarrow> series \<Rightarrow> (nat \<times> nat option) list" where
  "join_indexers lkey rkey =
     concat (map (\<lambda>i.
        case filter (\<lambda>j. rkey ! j = lkey ! i) [0..<length rkey] of
          [] \<Rightarrow> [(i, None)]
        | j # js \<Rightarrow> map (\<lambda>j. (i, Some j)) (j # js)) [0..<length lkey])"

definition take_left :: "(nat \<times> nat option) list \<Rightarrow> series \<Rightarrow> series" where
  "take_left idx s = map (\<lambda>p. s ! fst p) idx"

definition take_right :: "(nat \<times> nat option) list \<Rightarrow> series \<Rightarrow> series" where
  "take_right idx s = map (\<lambda>p. case snd p of None \<Rightarrow> NaN | Some j \<Rightarrow> s ! j) idx"

text \<open>
  Labels that occur on both sides get the suffixes \<^verbatim>\<open>_x\<close> and \<^verbatim>\<open>_y\<close>; a label repeated
  only because of its suffix is a \<^verbatim>\<open>MergeError\<close>.
\<close>

definition renamer :: "string list \<Rightarrow> string \<Rightarrow> string \<Rightarrow> string" where
  "renamer to_rename suffix x = (if x \<in> set to_rename then x @ suffix else x)"

definition new_duplicates :: "string list \<Rightarrow> string list \<Rightarrow> bool" where
  "new_duplicates new old =
     list_ex (\<lambda>p. new ! p \<in> set (take p new) \<and> old ! p \<notin> set (take p old)) [0..<length new]"

definition items_overlap_with_suffix ::
  "string list \<Rightarrow> string list \<Rightarrow> error + (string list \<times> string list)" where
  "items_overlap_with_suffix left right =
     (let to_rename = filter (\<lambda>x. x \<in> set right) left;
          llabels = map (renamer to_rename ''_x'') left;
          rlabels = map (renamer to_rename ''_y'') right
      in if new_duplicates llabels left \<or> new_duplicates rlabels right
         then Inl (MergeError ''Passing suffixes which cause duplicate columns is not allowed.'')
         else Inr (llabels, rlabels))"

text \<open>
  The result of a merge: the left columns taken at the left positions, then the right
  columns taken at the right positions, a missing partner giving \<^verbatim>\<open>NaN\<close>.
\<close>

definition reindex_and_concat ::
  "string list \<Rightarrow> string list \<Rightarrow> dataframe \<Rightarrow> dataframe \<Rightarrow> (nat \<times> nat option) list \<Rightarrow> dataframe" where
  "reindex_and_concat llabels rlabels left right idx =
     zip llabels (map (\<lambda>p. take_left idx (snd p)) left) @
     zip rlabels (map (\<lambda>p. take_right idx (snd p)) right)"

text \<open>
  The merge itself.  The keys are looked up on both sides (right first); when both keys
  have the same label the right key column is dropped.
\<close>

definition merge :: "dataframe \<Rightarrow> dataframe \<Rightarrow> string \<Rightarrow> string \<Rightarrow> error + dataframe" where
  "merge left right left_on right_on =
     (case getitem right right_on of
        Inl e \<Rightarrow> Inl e
      | Inr rkey \<Rightarrow>
     (case getitem left left_on of
        Inl e \<Rightarrow> Inl e
      | Inr lkey \<Rightarrow>
         let right' = (if left_on = right_on then filter (\<lambda>p. fst p \<noteq> right_on) right else right)
         in (case items_overlap_with_suffix (map fst left) (map fst right') of
               Inl e \<Rightarrow> Inl e
             | Inr (llabels, rlabels) \<Rightarrow>
                 Inr (reindex_and_concat llabels rlabels left right' (join_indexers lkey rkey)))))"

section \<open>The transformation: the body of the button in \<^verbatim>\<open>main\<close>\<close>

record selection =
  client_col :: string
  brief_name_col :: string
  brief_id_col :: string
  brief_req_col :: string
  issued_amount_col :: string

definition base_url :: string where
  "base_url = ''https://app.bulbshare.com/2/briefs/create_brief.html?brief=''"

text \<open>The lambda that makes a link; its argument \<^verbatim>\<open>x\<close> is a Python string, an element of
  the series \<^verbatim>\<open>df1[brief_id_col].astype(str)\<close>.\<close>

definition link_lambda :: "string \<Rightarrow> string" where
  "link_lambda x = (if pd_notna (Str x) \<and> strip x \<noteq> [] then base_url @ strip x else [])"

text \<open>\<^verbatim>\<open>df[c] = df[c].astype(str).str.strip()\<close>: the cleaned series is stored back as
  a column of texts.\<close>

definition normalized :: "series \<Rightarrow> series" where
  "normalized s = map Str (str_strip (astype_str s))"

definition clean :: "dataframe \<Rightarrow> string \<Rightarrow> error + dataframe" where
  "clean df c =
     (case getitem df c of
        Inl e \<Rightarrow> Inl e
      | Inr s \<Rightarrow> Inr (setitem df c (normalized s)))"

text \<open>\<^verbatim>\<open>df1['Brief_Link'] = df1[brief_id_col].astype(str).apply(lambda x: ...)\<close>\<close>

definition brief_links :: "series \<Rightarrow> series" where
  "brief_links s = map Str (map link_lambda (astype_str s))"

definition generate_links :: "dataframe \<Rightarrow> string \<Rightarrow> error + dataframe" where
  "generate_links df c =
     (case getitem df c of
        Inl e \<Rightarrow> Inl e
      | Inr s \<Rightarrow> Inr (setitem df ''Brief_Link'' (brief_links s)))"

text \<open>The merge of the two selections, keyed on brief name = brief requirement.\<close>

definition merged_df :: "dataframe \<Rightarrow> dataframe \<Rightarrow> selection \<Rightarrow> error + dataframe" where
  "merged_df df1 df2 sel =
     (case select df1 [client_col sel, brief_name_col sel, brief_id_col sel, ''Brief_Link''] of
        Inl e \<Rightarrow> Inl e
      | Inr left \<Rightarrow>
     (case select df2 [brief_req_col sel, issued_amount_col sel] of
        Inl e \<Rightarrow> Inl e
      | Inr right \<Rightarrow> merge left right (brief_name_col sel) (brief_req_col sel)))"

text \<open>The final frame, before and after the rows with an empty link are removed.\<close>

definition projected_df :: "dataframe \<Rightarrow> selection \<Rightarrow> error + dataframe" where
  "projected_df m sel =
     (case getitem m (client_col sel) of Inl e \<Rightarrow> Inl e | Inr c \<Rightarrow>
     (case getitem m (brief_name_col sel) of Inl e \<Rightarrow> Inl e | Inr b \<Rightarrow>
     (case getitem m ''Brief_Link'' of Inl e \<Rightarrow> Inl e | Inr l \<Rightarrow>
     (case getitem m (issued_amount_col sel) of Inl e \<Rightarrow> Inl e | Inr a \<Rightarrow>
        Inr [(''Client_Name'', c), (''Brief_Name'', b), (''Brief_Link'', l), (''Issued_Amount'', a)]))))"

definition drop_empty_links :: "dataframe \<Rightarrow> error + dataframe" where
  "drop_empty_links r =
     (case getitem r ''Brief_Link'' of
        Inl e \<Rightarrow> Inl e
      | Inr l \<Rightarrow> Inr (boolean_mask r (ne_str l [])))"

definition result_df :: "dataframe \<Rightarrow> selection \<Rightarrow> error + dataframe" where
  "result_df m sel =
     (case projected_df m sel of Inl e \<Rightarrow> Inl e | Inr r \<Rightarrow> drop_empty_links r)"

text \<open>What the statements up to the filter compute: the two frames as the program has
  changed them, the merged frame and the result.\<close>

record outputs =
  df1_out :: dataframe
  df2_out :: dataframe
  merged_out :: dataframe
  result_out :: dataframe

definition generate :: "dataframe \<Rightarrow> dataframe \<Rightarrow> selection \<Rightarrow> error + outputs" where
  "generate df1 df2 sel =
     (case clean df1 (brief_name_col sel) of Inl e \<Rightarrow> Inl e | Inr df1a \<Rightarrow>
     (case clean df2 (brief_req_col sel) of Inl e \<Rightarrow> Inl e | Inr df2a \<Rightarrow>
     (case generate_links df1a (brief_id_col sel) of Inl e \<Rightarrow> Inl e | Inr df1b \<Rightarrow>
     (case merged_df df1b df2a sel of Inl e \<Rightarrow> Inl e | Inr m \<Rightarrow>
     (case result_df m sel of Inl e \<Rightarrow> Inl e | Inr r \<Rightarrow>
        Inr \<lparr>df1_out = df1b, df2_out = df2a, merged_out = m, result_out = r\<rparr>)))))"

text \<open>The unmatched records: \<^verbatim>\<open>a[~a[ka].isin(b[kb])]\<close>.\<close>

definition unmatched :: "dataframe \<Rightarrow> string \<Rightarrow> dataframe \<Rightarrow> string \<Rightarrow> error + dataframe" where
  "unmatched a ka b kb =
     (case getitem a ka of Inl e \<Rightarrow> Inl e | Inr s \<Rightarrow>
     (case getitem b kb of Inl e \<Rightarrow> Inl e | Inr vs \<Rightarrow>
        Inr (boolean_mask a (map Not (isin s vs)))))"

definition unmatched_from_csv1 :: "outputs \<Rightarrow> selection \<Rightarrow> error + dataframe" where
  "unmatched_from_csv1 out sel =
     unmatched (df1_out out) (brief_name_col sel) (df2_out out) (brief_req_col sel)"

definition unmatched_from_csv2 :: "outputs \<Rightarrow> selection \<Rightarrow> error + dataframe" where
  "unmatched_from_csv2 out sel =
     unmatched (df2_out out) (brief_req_col sel) (df1_out out) (brief_name_col sel)"

section \<open>The page: \<^verbatim>\<open>main\<close>\<close>

text \<open>
  What \<^verbatim>\<open>main\<close> puts on the page, in order.  Titles, captions and the column pickers are
  left out; the download button carries the frame whose CSV text it offers; \<open>Hint\<close> is
  the line that asks to check the format of the files, \<open>Info\<close> the invitation to upload
  both files with its example tables; the error message is kept without the cross mark
  that starts it.  Streamlit keeps what was written before an exception is raised, so
  the body of the \<^verbatim>\<open>try\<close> returns the elements written so far together with the
  exception, if any.
\<close>

datatype element =
    Preview dataframe
  | Metrics nat nat nat
  | ResultTable dataframe
  | DownloadButton dataframe
  | UnmatchedCsv1 nat dataframe
  | UnmatchedCsv2 nat dataframe
  | ErrorMessage string
  | Hint
  | Info

text \<open>\<^verbatim>\<open>str(e)\<close>: a \<^verbatim>\<open>KeyError\<close> prints its key in quotes, the others their message.\<close>

fun str_error :: "error \<Rightarrow> string" where
  "str_error (KeyError k) = [CHR 0x27] @ k @ [CHR 0x27]"
| "str_error (ValueError m) = m"
| "str_error (MergeError m) = m"
| "str_error (ParserError m) = m"

text \<open>One of the two tables of unmatched records: written when it has rows, restricted to
  the two listed columns.\<close>

definition unmatched_table ::
  "(nat \<Rightarrow> dataframe \<Rightarrow> element) \<Rightarrow> dataframe \<Rightarrow> string list \<Rightarrow> element list \<times> error option" where
  "unmatched_table mk u cs =
     (if len u > 0
      then (case select u cs of Inl e \<Rightarrow> ([], Some e) | Inr v \<Rightarrow> ([mk (len u) v], None))
      else ([], None))"

definition unmatched_section :: "outputs \<Rightarrow> selection \<Rightarrow> element list \<times> error option" where
  "unmatched_section out sel =
     (case unmatched_from_csv1 out sel of Inl e \<Rightarrow> ([], Some e) | Inr u1 \<Rightarrow>
     (case unmatched_from_csv2 out sel of Inl e \<Rightarrow> ([], Some e) | Inr u2 \<Rightarrow>
        if len u1 > 0 \<or> len u2 > 0
        then (case unmatched_table UnmatchedCsv1 u1 [client_col sel, brief_name_col sel] of
                (es1, Some e) \<Rightarrow> (es1, Some e)
              | (es1, None) \<Rightarrow>
                  (case unmatched_table UnmatchedCsv2 u2 [brief_req_col sel, issued_amount_col sel] of
                     (es2, r) \<Rightarrow> (es1 @ es2, r)))
        else ([], None)))"

text \<open>The body of the \<^verbatim>\<open>try\<close>.  \<^verbatim>\<open>read_csv\<close> is the pandas parser, a parameter here; the
  column selection and the state of the button are the user's input.\<close>

definition try_body ::
  "('f \<Rightarrow> error + dataframe) \<Rightarrow> 'f \<Rightarrow> 'f \<Rightarrow> selection \<Rightarrow> bool \<Rightarrow> element list \<times> error option" where
  "try_body read_csv csv1 csv2 sel button =
     (case read_csv csv1 of Inl e \<Rightarrow> ([], Some e) | Inr df1 \<Rightarrow>
     (case read_csv csv2 of Inl e \<Rightarrow> ([], Some e) | Inr df2 \<Rightarrow>
        let previews = [Preview df1, Preview df2]
        in if \<not> button then (previews, None)
           else (case generate df1 df2 sel of
                   Inl e \<Rightarrow> (previews, Some e)
                 | Inr out \<Rightarrow>
                     let shown = previews @
                           [Metrics (len (result_out out)) (len (df1_out out)) (len (df2_out out)),
                            ResultTable (result_out out),
                            DownloadButton (result_out out)]
                     in (case unmatched_section out sel of (es, r) \<Rightarrow> (shown @ es, r)))))"

definition main ::
  "('f \<Rightarrow> error + dataframe) \<Rightarrow> 'f option \<Rightarrow> 'f option \<Rightarrow> selection \<Rightarrow> bool \<Rightarrow> element list" where
  "main read_csv csv1 csv2 sel button =
     (case (csv1, csv2) of
        (Some f1, Some f2) \<Rightarrow>
          (case try_body read_csv f1 f2 sel button of
             (es, None) \<Rightarrow> es
           | (es, Some e) \<Rightarrow> es @ [ErrorMessage (''Error processing files: '' @ str_error e), Hint])
      | _ \<Rightarrow> [Info])"


text \<open>The elements of the section that lists unmatched records.\<close>

fun is_unmatched :: "element \<Rightarrow> bool" where
  "is_unmatched (UnmatchedCsv1 n d) = True"
| "is_unmatched (UnmatchedCsv2 n d) = True"
| "is_unmatched e = False"

section \<open>Example uploads\<close>

text \<open>
  Small uploads, as \<^verbatim>\<open>read_csv\<close> returns them (an empty field is read as \<^verbatim>\<open>NaN\<close>), and the
  column selection that goes with them.
\<close>

definition primary_example :: dataframe where
  "primary_example =
     [(''Client'', [Str ''A'', Str ''B'']),
      (''Brief'', [Str '' Alpha '', Str ''Beta'']),
      (''ID'', [Str ''x1'', NaN])]"

definition secondary_example :: dataframe where
  "secondary_example = [(''Req'', [Str ''Alpha'']), (''Amount'', [Num 1000])]"

definition secondary_repeated :: dataframe where
  "secondary_repeated = [(''Req'', [Str ''Alpha'', Str ''Alpha'']), (''Amount'', [Num 1000, Num 5])]"

definition primary_missing :: dataframe where
  "primary_missing =
     [(''Client'', [Str ''A'', Str ''B'']),
      (''Brief'', [NaN, Str ''Beta'']),
      (''ID'', [Str ''x1'', Str ''  ''])]"

definition secondary_missing :: dataframe where
  "secondary_missing = [(''Req'', [Str ''alpha'', NaN]), (''Amount'', [Str ''n/a'', Str ''7'']) ]"

definition selection_example :: selection where
  "selection_example =
     \<lparr>client_col = ''Client'', brief_name_col = ''Brief'', brief_id_col = ''ID'',
      brief_req_col = ''Req'', issued_amount_col = ''Amount''\<rparr>"

text \<open>What the transformation returns on these uploads.\<close>

definition outputs_example :: outputs where
  "outputs_example =
     \<lparr>df1_out =
        [(''Client'', [Str ''A'', Str ''B'']),
         (''Brief'', [Str ''Alpha'', Str ''Beta'']),
         (''ID'', [Str ''x1'', NaN]),
         (''Brief_Link'',
          [Str ''https://app.bulbshare.com/2/briefs/create_brief.html?brief=x1'',
           Str ''https://app.bulbshare.com/2/briefs/create_brief.html?brief=nan''])],
      df2_out = [(''Req'', [Str ''Alpha'']), (''Amount'', [Num 1000])],
      merged_out =
        [(''Client'', [Str ''A'', Str ''B'']),
         (''Brief'', [Str ''Alpha'', Str ''Beta'']),
         (''ID'', [Str ''x1'', NaN]),
         (''Brief_Link'',
          [Str ''https://app.bulbshare.com/2/briefs/create_brief.html?brief=x1'',
           Str ''https://app.bulbshare.com/2/briefs/create_brief.html?brief=nan'']),
         (''Req'', [Str ''Alpha'', NaN]),
         (''Amount'', [Num 1000, NaN])],
      result_out =
        [(''Client_Name'', [Str ''A'', Str ''B'']),
         (''Brief_Name'', [Str ''Alpha'', Str ''Beta'']),
         (''Brief_Link'',
          [Str ''https://app.bulbshare.com/2/briefs/create_brief.html?brief=x1'',
           Str ''https://app.bulbshare.com/2/briefs/create_brief.html?brief=nan'']),
         (''Issued_Amount'', [Num 1000, NaN])]\<rparr>"

definition outputs_repeated :: outputs where
  "outputs_repeated =
     \<lparr>df1_out =
        [(''Client'', [Str ''A'', Str ''B'']),
         (''Brief'', [Str ''Alpha'', Str ''Beta'']),
         (''ID'', [Str ''x1'', NaN]),
         (''Brief_Link'',
          [Str ''https://app.bulbshare.com/2/briefs/create_brief.html?brief=x1'',
           Str ''https://app.bulbshare.com/2/briefs/create_brief.html?brief=nan''])],
      df2_out =
        [(''Req'', [Str ''Alpha'', Str ''Alpha'']),
         (''Amount'', [Num 1000, Num 5])],
      merged_out =
        [(''Client'', [Str ''A'', Str ''A'', Str ''B'']),
         (''Brief'', [Str ''Alpha'', Str ''Alpha'', Str ''Beta'']),
         (''ID'', [Str ''x1'', Str ''x1'', NaN]),
         (''Brief_Link'',
          [Str ''https://app.bulbshare.com/2/briefs/create_brief.html?brief=x1'',
           Str ''https://app.bulbshare.com/2/briefs/create_brief.html?brief=x1'',
           Str ''https://app.bulbshare.com/2/briefs/create_brief.html?brief=nan'']),
         (''Req'', [Str ''Alpha'', Str ''Alpha'', NaN]),
         (''Amount'', [Num 1000, Num 5, NaN])],
      result_out =
        [(''Client_Name'', [Str ''A'', Str ''A'', Str ''B'']),
         (''Brief_Name'', [Str ''Alpha'', Str ''Alpha'', Str ''Beta'']),
         (''Brief_Link'',
          [Str ''https://app.bulbshare.com/2/briefs/create_brief.html?brief=x1'',
           Str ''https://app.bulbshare.com/2/briefs/create_brief.html?brief=x1'',
           Str ''https://app.bulbshare.com/2/briefs/create_brief.html?brief=nan'']),
         (''Issued_Amount'', [Num 1000, Num 5, NaN])]\<rparr>"

definition outputs_missing :: outputs where
  "outputs_missing =
     \<lparr>df1_out =
        [(''Client'', [Str ''A'', Str ''B'']),
         (''Brief'', [Str ''nan'', Str ''Beta'']),
         (''ID'', [Str ''x1'', Str ''  '']),
         (''Brief_Link'',
          [Str ''https://app.bulbshare.com/2/briefs/create_brief.html?brief=x1'',
           Str []])],
      df2_out =
        [(''Req'', [Str ''alpha'', Str ''nan'']),
         (''Amount'', [Str ''n/a'', Str ''7''])],
      merged_out =
        [(''Client'', [Str ''A'', Str ''B'']),
         (''Brief'', [Str ''nan'', Str ''Beta'']),
         (''ID'', [Str ''x1'', Str ''  '']),
         (''Brief_Link'',
          [Str ''https://app.bulbshare.com/2/briefs/create_brief.html?brief=x1'',
           Str []]),
         (''Req'', [Str ''nan'', NaN]),
         (''Amount'', [Str ''7'', NaN])],
      result_out =
        [(''Client_Name'', [Str ''A'']),
         (''Brief_Name'', [Str ''nan'']),
         (''Brief_Link'',
          [Str ''https://app.bulbshare.com/2/briefs/create_brief.html?brief=x1'']),
         (''Issued_Amount'', [Str ''7''])]\<rparr>"


section \<open>Properties of the frame operations\<close>


lemma pd_notna_Str: "pd_notna (Str x)"
  by (simp add: pd_notna_def)

lemma link_lambda_eq: "link_lambda x = (if strip x = [] then [] else base_url @ strip x)"
  by (simp add: link_lambda_def pd_notna_Str)

lemma brief_links_eq:
  "brief_links s =
     map (\<lambda>x. Str (if strip (py_str x) = [] then [] else base_url @ strip (py_str x))) s"
  by (simp add: brief_links_def astype_str_def link_lambda_eq)

lemma filter_setitem_same:
  "filter (\<lambda>p. fst p = c) (setitem df c s) =
     (case filter (\<lambda>p. fst p = c) df of [] \<Rightarrow> [(c, s)] | _ # ps \<Rightarrow> (c, s) # ps)"
  by (induction df) (auto split: list.splits)

lemma filter_setitem_other:
  "c' \<noteq> c \<Longrightarrow> filter (\<lambda>p. fst p = c') (setitem df c s) = filter (\<lambda>p. fst p = c') df"
  by (induction df) auto

lemma getitem_setitem_other: "c' \<noteq> c \<Longrightarrow> getitem (setitem df c s) c' = getitem df c'"
  by (simp add: getitem_def filter_setitem_other)

lemma getitem_setitem_same: "getitem df c = Inr t \<Longrightarrow> getitem (setitem df c s) c = Inr s"
  by (auto simp: getitem_def filter_setitem_same split: list.splits)

lemma getitem_setitem_new: "getitem df c = Inl (KeyError k) \<Longrightarrow> getitem (setitem df c s) c = Inr s"
  by (auto simp: getitem_def filter_setitem_same split: list.splits)

lemma getitem_Inl_cases: "getitem df c = Inl e \<Longrightarrow> e = KeyError c \<or> (\<exists>m. e = ValueError m)"
  by (auto simp: getitem_def split: list.splits)

lemma getitem_Inr_filter:
  "getitem df c = Inr s \<longleftrightarrow> (\<exists>p. filter (\<lambda>p. fst p = c) df = [p] \<and> snd p = s)"
  by (auto simp: getitem_def split: list.splits)

lemma getitem_Inr_mem: "getitem df c = Inr s \<Longrightarrow> (c, s) \<in> set df"
proof -
  assume a: "getitem df c = Inr s"
  then obtain p where p: "filter (\<lambda>p. fst p = c) df = [p]" "snd p = s"
    by (auto simp: getitem_Inr_filter)
  then have "set (filter (\<lambda>p. fst p = c) df) = {p}" by simp
  then have "p \<in> set df \<and> fst p = c" by auto
  then show ?thesis using p(2) by (cases p) auto
qed

lemma getitem_Inr_unique: "getitem df c = Inr s \<Longrightarrow> (c, t) \<in> set df \<Longrightarrow> t = s"
proof -
  assume a: "getitem df c = Inr s" and m: "(c, t) \<in> set df"
  then obtain p where p: "filter (\<lambda>p. fst p = c) df = [p]" "snd p = s"
    by (auto simp: getitem_Inr_filter)
  from m have "(c, t) \<in> set (filter (\<lambda>p. fst p = c) df)" by simp
  then have "(c, t) = p" using p(1) by simp
  then show ?thesis using p(2) by auto
qed

lemma select4_Inr:
  "select df [a, b, c, d] = Inr r \<longleftrightarrow>
     (\<exists>sa sb sc sd. getitem df a = Inr sa \<and> getitem df b = Inr sb \<and> getitem df c = Inr sc \<and>
        getitem df d = Inr sd \<and> r = [(a, sa), (b, sb), (c, sc), (d, sd)])"
  by (auto split: sum.splits)

lemma select2_Inr:
  "select df [a, b] = Inr r \<longleftrightarrow>
     (\<exists>sa sb. getitem df a = Inr sa \<and> getitem df b = Inr sb \<and> r = [(a, sa), (b, sb)])"
  by (auto split: sum.splits)

lemma generate_Inr:
  assumes "generate df1 df2 sel = Inr out"
  obtains k1 k2 ids where
    "getitem df1 (brief_name_col sel) = Inr k1"
    "getitem df2 (brief_req_col sel) = Inr k2"
    "getitem (setitem df1 (brief_name_col sel) (normalized k1)) (brief_id_col sel) = Inr ids"
    "df1_out out = setitem (setitem df1 (brief_name_col sel) (normalized k1)) ''Brief_Link'' (brief_links ids)"
    "df2_out out = setitem df2 (brief_req_col sel) (normalized k2)"
    "merged_df (df1_out out) (df2_out out) sel = Inr (merged_out out)"
    "result_df (merged_out out) sel = Inr (result_out out)"
  using assms
  by (auto simp: generate_def clean_def generate_links_def split: sum.splits)

lemma merge_Inr:
  assumes "merge left right lo ro = Inr m"
  obtains lkey rkey llabels rlabels right' where
    "getitem left lo = Inr lkey" "getitem right ro = Inr rkey"
    "right' = (if lo = ro then filter (\<lambda>p. fst p \<noteq> ro) right else right)"
    "items_overlap_with_suffix (map fst left) (map fst right') = Inr (llabels, rlabels)"
    "m = reindex_and_concat llabels rlabels left right' (join_indexers lkey rkey)"
  using assms
  by (auto simp: merge_def Let_def split: sum.splits)

lemma items_overlap_lengths:
  "items_overlap_with_suffix ls rs = Inr (ll, rl) \<Longrightarrow> length ll = length ls \<and> length rl = length rs"
  by (auto simp: items_overlap_with_suffix_def Let_def split: if_splits)

lemma merged_df_Inr:
  assumes "merged_df a b sel = Inr m"
  obtains c lkey ids l rkey am llabels rlabels right' where
    "getitem a (client_col sel) = Inr c"
    "getitem a (brief_name_col sel) = Inr lkey"
    "getitem a (brief_id_col sel) = Inr ids"
    "getitem a ''Brief_Link'' = Inr l"
    "getitem b (brief_req_col sel) = Inr rkey"
    "getitem b (issued_amount_col sel) = Inr am"
    "brief_name_col sel \<noteq> ''Brief_Link''"
    "length llabels = 4" "length rlabels = length right'"
    "m = reindex_and_concat llabels rlabels
           [(client_col sel, c), (brief_name_col sel, lkey), (brief_id_col sel, ids), (''Brief_Link'', l)]
           right' (join_indexers lkey rkey)"
    "right' = (if brief_name_col sel = brief_req_col sel
               then filter (\<lambda>p. fst p \<noteq> brief_req_col sel)
                      [(brief_req_col sel, rkey), (issued_amount_col sel, am)]
               else [(brief_req_col sel, rkey), (issued_amount_col sel, am)])"
    "items_overlap_with_suffix
       [client_col sel, brief_name_col sel, brief_id_col sel, ''Brief_Link''] (map fst right') =
     Inr (llabels, rlabels)"
proof -
  from assms obtain left right where
    left: "select a [client_col sel, brief_name_col sel, brief_id_col sel, ''Brief_Link''] = Inr left"
    and right: "select b [brief_req_col sel, issued_amount_col sel] = Inr right"
    and mg: "merge left right (brief_name_col sel) (brief_req_col sel) = Inr m"
    by (auto simp: merged_df_def split: sum.splits)
  from left obtain c lkey ids l where
    g: "getitem a (client_col sel) = Inr c" "getitem a (brief_name_col sel) = Inr lkey"
       "getitem a (brief_id_col sel) = Inr ids" "getitem a ''Brief_Link'' = Inr l"
    and left_eq: "left = [(client_col sel, c), (brief_name_col sel, lkey), (brief_id_col sel, ids), (''Brief_Link'', l)]"
    unfolding select4_Inr by blast
  from right obtain rkey am where
    h: "getitem b (brief_req_col sel) = Inr rkey" "getitem b (issued_amount_col sel) = Inr am"
    and right_eq: "right = [(brief_req_col sel, rkey), (issued_amount_col sel, am)]"
    unfolding select2_Inr by blast
  from mg obtain lkey' rkey' llabels rlabels right' where
    k: "getitem left (brief_name_col sel) = Inr lkey'" "getitem right (brief_req_col sel) = Inr rkey'"
    and r': "right' = (if brief_name_col sel = brief_req_col sel
                       then filter (\<lambda>p. fst p \<noteq> brief_req_col sel) right else right)"
    and ov: "items_overlap_with_suffix (map fst left) (map fst right') = Inr (llabels, rlabels)"
    and m: "m = reindex_and_concat llabels rlabels left right' (join_indexers lkey' rkey')"
    by (rule merge_Inr)
  have lk: "lkey' = lkey"
    using getitem_Inr_unique[OF k(1), of lkey] by (simp add: left_eq)
  have rk: "rkey' = rkey"
    using getitem_Inr_unique[OF k(2), of rkey] by (simp add: right_eq)
  have ne: "brief_name_col sel \<noteq> ''Brief_Link''"
    using k(1) by (auto simp: left_eq getitem_def split: if_splits)
  have len: "length llabels = 4" "length rlabels = length right'"
    using items_overlap_lengths[OF ov] by (simp_all add: left_eq)
  show ?thesis
  proof (rule that[OF g h ne len])
    show "m = reindex_and_concat llabels rlabels
           [(client_col sel, c), (brief_name_col sel, lkey), (brief_id_col sel, ids), (''Brief_Link'', l)]
           right' (join_indexers lkey rkey)"
      using m by (simp add: left_eq lk rk)
    show "right' = (if brief_name_col sel = brief_req_col sel
               then filter (\<lambda>p. fst p \<noteq> brief_req_col sel)
                      [(brief_req_col sel, rkey), (issued_amount_col sel, am)]
               else [(brief_req_col sel, rkey), (issued_amount_col sel, am)])"
      using r' by (simp only: right_eq)
    show "items_overlap_with_suffix
       [client_col sel, brief_name_col sel, brief_id_col sel, ''Brief_Link''] (map fst right') =
     Inr (llabels, rlabels)"
      using ov by (simp add: left_eq)
  qed
qed

lemma generate_merged:
  assumes gen: "generate df1 df2 sel = Inr out"
    and k1: "getitem df1 (brief_name_col sel) = Inr k1"
    and k2: "getitem df2 (brief_req_col sel) = Inr k2"
  obtains c ids l am llabels rlabels right' where
    "getitem (df1_out out) (client_col sel) = Inr c"
    "getitem (df1_out out) (brief_name_col sel) = Inr (normalized k1)"
    "getitem (df1_out out) (brief_id_col sel) = Inr ids"
    "getitem (df1_out out) ''Brief_Link'' = Inr l"
    "getitem (df2_out out) (brief_req_col sel) = Inr (normalized k2)"
    "getitem (df2_out out) (issued_amount_col sel) = Inr am"
    "length llabels = 4" "length rlabels = length right'"
    "merged_out out = reindex_and_concat llabels rlabels
           [(client_col sel, c), (brief_name_col sel, normalized k1), (brief_id_col sel, ids), (''Brief_Link'', l)]
           right' (join_indexers (normalized k1) (normalized k2))"
    "right' = (if brief_name_col sel = brief_req_col sel
               then filter (\<lambda>p. fst p \<noteq> brief_req_col sel)
                      [(brief_req_col sel, normalized k2), (issued_amount_col sel, am)]
               else [(brief_req_col sel, normalized k2), (issued_amount_col sel, am)])"
proof -
  from gen obtain k1' k2' ids' where
    a: "getitem df1 (brief_name_col sel) = Inr k1'" "getitem df2 (brief_req_col sel) = Inr k2'"
    and d1: "df1_out out = setitem (setitem df1 (brief_name_col sel) (normalized k1')) ''Brief_Link'' (brief_links ids')"
    and d2: "df2_out out = setitem df2 (brief_req_col sel) (normalized k2')"
    and mg: "merged_df (df1_out out) (df2_out out) sel = Inr (merged_out out)"
    by (rule generate_Inr)
  from a k1 k2 have eq: "k1' = k1" "k2' = k2" by simp_all
  from mg obtain c lkey ids l rkey am llabels rlabels right' where
    g: "getitem (df1_out out) (client_col sel) = Inr c"
       "getitem (df1_out out) (brief_name_col sel) = Inr lkey"
       "getitem (df1_out out) (brief_id_col sel) = Inr ids"
       "getitem (df1_out out) ''Brief_Link'' = Inr l"
       "getitem (df2_out out) (brief_req_col sel) = Inr rkey"
       "getitem (df2_out out) (issued_amount_col sel) = Inr am"
    and ne: "brief_name_col sel \<noteq> ''Brief_Link''"
    and len: "length llabels = 4" "length rlabels = length right'"
    and m: "merged_out out = reindex_and_concat llabels rlabels
           [(client_col sel, c), (brief_name_col sel, lkey), (brief_id_col sel, ids), (''Brief_Link'', l)]
           right' (join_indexers lkey rkey)"
    and r': "right' = (if brief_name_col sel = brief_req_col sel
               then filter (\<lambda>p. fst p \<noteq> brief_req_col sel)
                      [(brief_req_col sel, rkey), (issued_amount_col sel, am)]
               else [(brief_req_col sel, rkey), (issued_amount_col sel, am)])"
    by (rule merged_df_Inr)
  have "getitem (df1_out out) (brief_name_col sel) = Inr (normalized k1)"
    using ne k1 by (simp add: d1 eq getitem_setitem_other getitem_setitem_same)
  with g(2) have lk: "lkey = normalized k1" by simp
  have "getitem (df2_out out) (brief_req_col sel) = Inr (normalized k2)"
    using k2 by (simp add: d2 eq getitem_setitem_same)
  with g(5) have rk: "rkey = normalized k2" by simp
  show ?thesis
    using that[OF g(1) _ g(3) g(4) _ g(6) len] g(2) g(5) m r' unfolding lk rk by blast
qed

text \<open>The same, with the two selections that the program merges.\<close>

lemma generate_join:
  assumes gen: "generate df1 df2 sel = Inr out"
    and k1: "getitem df1 (brief_name_col sel) = Inr k1"
    and k2: "getitem df2 (brief_req_col sel) = Inr k2"
  shows "\<exists>llabels rlabels left right right'.
           select (df1_out out) [client_col sel, brief_name_col sel, brief_id_col sel, ''Brief_Link''] = Inr left \<and>
           select (df2_out out) [brief_req_col sel, issued_amount_col sel] = Inr right \<and>
           right' = (if brief_name_col sel = brief_req_col sel
                     then filter (\<lambda>p. fst p \<noteq> brief_req_col sel) right else right) \<and>
           length left = 4 \<and> length llabels = 4 \<and> length rlabels = length right' \<and>
           merged_out out =
             reindex_and_concat llabels rlabels left right'
               (join_indexers (normalized k1) (normalized k2))"
proof -
  from assms obtain c ids l am llabels rlabels right' where
    g: "getitem (df1_out out) (client_col sel) = Inr c"
       "getitem (df1_out out) (brief_name_col sel) = Inr (normalized k1)"
       "getitem (df1_out out) (brief_id_col sel) = Inr ids"
       "getitem (df1_out out) ''Brief_Link'' = Inr l"
    and h: "getitem (df2_out out) (brief_req_col sel) = Inr (normalized k2)"
       "getitem (df2_out out) (issued_amount_col sel) = Inr am"
    and len: "length llabels = 4" "length rlabels = length right'"
    and m: "merged_out out = reindex_and_concat llabels rlabels
           [(client_col sel, c), (brief_name_col sel, normalized k1), (brief_id_col sel, ids), (''Brief_Link'', l)]
           right' (join_indexers (normalized k1) (normalized k2))"
    and r': "right' = (if brief_name_col sel = brief_req_col sel
               then filter (\<lambda>p. fst p \<noteq> brief_req_col sel)
                      [(brief_req_col sel, normalized k2), (issued_amount_col sel, am)]
               else [(brief_req_col sel, normalized k2), (issued_amount_col sel, am)])"
    by (rule generate_merged)
  have "select (df1_out out) [client_col sel, brief_name_col sel, brief_id_col sel, ''Brief_Link''] =
          Inr [(client_col sel, c), (brief_name_col sel, normalized k1), (brief_id_col sel, ids), (''Brief_Link'', l)]"
    using g by (simp add: select4_Inr)
  moreover have "select (df2_out out) [brief_req_col sel, issued_amount_col sel] =
          Inr [(brief_req_col sel, normalized k2), (issued_amount_col sel, am)]"
    using h by (simp add: select2_Inr)
  ultimately show ?thesis
    using len m r' by (intro exI conjI) (assumption | simp)+
qed

lemma len_reindex_and_concat:
  "length llabels = 4 \<Longrightarrow>
   len (reindex_and_concat llabels rlabels [a, b, c, d] right idx) = length idx"
  by (cases llabels) (auto simp: reindex_and_concat_def len_def take_left_def)

lemma count_by_position:
  "length (filter (\<lambda>j. rk ! j = x) [0..<length rk]) = count_list rk x"
proof -
  have "filter ((=) x) rk = filter ((=) x) (map (\<lambda>j. rk ! j) [0..<length rk])"
    by (simp add: map_nth)
  also have "length \<dots> = length (filter (\<lambda>j. x = rk ! j) [0..<length rk])"
    by (simp add: filter_map comp_def)
  also have "(\<lambda>j. x = rk ! j) = (\<lambda>j. rk ! j = x)"
    by auto
  finally show ?thesis
    by (simp add: count_list_eq_length_filter)
qed

lemma length_join_indexers:
  "length (join_indexers lkey rkey) = sum_list (map (\<lambda>x. max 1 (count_list rkey x)) lkey)"
proof -
  have "length (join_indexers lkey rkey) =
        sum_list (map (\<lambda>i. max 1 (count_list rkey (lkey ! i))) [0..<length lkey])"
    unfolding join_indexers_def length_concat map_map comp_def
    by (rule arg_cong[where f = sum_list], rule map_cong)
       (auto simp: count_by_position[symmetric] split: list.splits)
  also have "\<dots> = sum_list (map (\<lambda>x. max 1 (count_list rkey x)) (map (\<lambda>i. lkey ! i) [0..<length lkey]))"
    by (simp add: comp_def)
  finally show ?thesis by (simp add: map_nth)
qed

lemma length_join_indexers_distinct:
  assumes "distinct rkey"
  shows "length (join_indexers lkey rkey) = length lkey"
proof -
  have "count_list rkey x \<le> 1" for x
    using assms by (induction rkey) auto
  then have "max 1 (count_list rkey x) = 1" for x
    using le_antisym[of "count_list rkey x" 1] by (auto simp: max_def)
  then show ?thesis
    by (simp add: length_join_indexers sum_list_triv)
qed

lemma set_partners:
  "set (case js of [] \<Rightarrow> [(i, None)] | j # js' \<Rightarrow> map (\<lambda>j. (i, Some j)) (j # js')) =
     (if js = [] then {(i, None)} else (\<lambda>j. (i, Some j)) ` set js)"
  by (cases js) auto

lemma in_join_indexers_Some:
  "(i, Some j) \<in> set (join_indexers lkey rkey) \<longleftrightarrow>
     i < length lkey \<and> j < length rkey \<and> rkey ! j = lkey ! i"
  (is "?lhs \<longleftrightarrow> ?rhs")
proof
  assume ?lhs
  then show ?rhs
    unfolding join_indexers_def
    by (auto simp: set_partners filter_empty_conv split: if_splits)
next
  assume r: ?rhs
  let ?js = "filter (\<lambda>j. rkey ! j = lkey ! i) [0..<length rkey]"
  from r have "j \<in> set ?js" by simp
  then have "(i, Some j) \<in> set (case ?js of [] \<Rightarrow> [(i, None)] | j # js' \<Rightarrow> map (\<lambda>j. (i, Some j)) (j # js'))"
    unfolding set_partners by (auto simp del: set_filter)
  moreover from r have "i \<in> set [0..<length lkey]" by simp
  ultimately show ?lhs
    unfolding join_indexers_def set_concat set_map by blast
qed

lemma in_join_indexers_None:
  "(i, None) \<in> set (join_indexers lkey rkey) \<longleftrightarrow>
     i < length lkey \<and> (\<forall>j < length rkey. rkey ! j \<noteq> lkey ! i)"
  unfolding join_indexers_def
  by (auto simp: set_partners filter_empty_conv split: if_splits)

lemma fst_partners:
  "map fst (case js of [] \<Rightarrow> [(i, None)] | j # js' \<Rightarrow> map (\<lambda>j. (i, Some j)) (j # js')) =
     replicate (max 1 (length js)) i"
  by (cases js) (auto simp: comp_def map_replicate_const)

lemma sorted_concat_replicate:
  "sorted is \<Longrightarrow> sorted (concat (map (\<lambda>i. replicate (f i) i) is))"
  by (induction "is") (auto simp: sorted_append)

lemma map_fst_join_indexers:
  "map fst (join_indexers lkey rkey) =
     concat (map (\<lambda>i. replicate (max 1 (count_list rkey (lkey ! i))) i) [0..<length lkey])"
  unfolding join_indexers_def map_concat map_map comp_def fst_partners count_by_position ..

lemma sorted_join_indexers: "sorted (map fst (join_indexers lkey rkey))"
  unfolding map_fst_join_indexers by (rule sorted_concat_replicate) simp

lemma set_fst_join_indexers: "set (map fst (join_indexers lkey rkey)) = {0..<length lkey}"
  unfolding map_fst_join_indexers by (auto simp: max_def)


lemma getitem_boolean_mask:
  "getitem (boolean_mask df m) c =
     (case getitem df c of Inl e \<Rightarrow> Inl e | Inr s \<Rightarrow> Inr (map fst (filter snd (zip s m))))"
proof -
  have "filter (\<lambda>p. fst p = c) (boolean_mask df m) =
        map (\<lambda>p. (fst p, map fst (filter snd (zip (snd p) m)))) (filter (\<lambda>p. fst p = c) df)"
    by (simp add: boolean_mask_def filter_map comp_def)
  then show ?thesis
    by (auto simp: getitem_def split: list.splits)
qed

lemma masked_column: "map fst (filter snd (zip s (map P s))) = filter P s"
  by (induction s) auto

lemma unmatched_Inr:
  assumes "getitem a ka = Inr s" "getitem b kb = Inr vs"
  shows "unmatched a ka b kb = Inr (boolean_mask a (map (\<lambda>x. x \<notin> set vs) s))"
  using assms by (simp add: unmatched_def isin_def comp_def)

lemma normalized_map: "normalized k = map (\<lambda>x. Str (strip (py_str x))) k"
  by (simp add: normalized_def str_strip_def astype_str_def)

lemma in_set_normalized:
  "Str (strip (py_str x)) \<in> set (normalized k) \<longleftrightarrow> (\<exists>y \<in> set k. strip (py_str y) = strip (py_str x))"
  unfolding normalized_map set_map image_iff cell.inject by metis

lemma unmatched_mask:
  "map (\<lambda>x. x \<notin> set (normalized k2)) (normalized k1) =
   map (\<lambda>x. \<forall>y \<in> set k2. strip (py_str y) \<noteq> strip (py_str x)) k1"
  by (simp add: normalized_map[of k1] in_set_normalized)

lemma generate_unmatched:
  assumes gen: "generate df1 df2 sel = Inr out"
    and k1: "getitem df1 (brief_name_col sel) = Inr k1"
    and k2: "getitem df2 (brief_req_col sel) = Inr k2"
  shows "unmatched_from_csv1 out sel =
           Inr (boolean_mask (df1_out out) (map (\<lambda>x. \<forall>y \<in> set k2. strip (py_str y) \<noteq> strip (py_str x)) k1))"
    and "unmatched_from_csv2 out sel =
           Inr (boolean_mask (df2_out out) (map (\<lambda>y. \<forall>x \<in> set k1. strip (py_str x) \<noteq> strip (py_str y)) k2))"
proof -
  have g: "getitem (df1_out out) (brief_name_col sel) = Inr (normalized k1)"
       "getitem (df2_out out) (brief_req_col sel) = Inr (normalized k2)"
    by (rule generate_merged[OF gen k1 k2], assumption)+
  show "unmatched_from_csv1 out sel =
           Inr (boolean_mask (df1_out out) (map (\<lambda>x. \<forall>y \<in> set k2. strip (py_str y) \<noteq> strip (py_str x)) k1))"
    unfolding unmatched_from_csv1_def unmatched_Inr[OF g(1) g(2)] unmatched_mask ..
  show "unmatched_from_csv2 out sel =
           Inr (boolean_mask (df2_out out) (map (\<lambda>y. \<forall>x \<in> set k1. strip (py_str x) \<noteq> strip (py_str y)) k2))"
    unfolding unmatched_from_csv2_def unmatched_Inr[OF g(2) g(1)] unmatched_mask ..
qed

lemma result_df_Inr:
  assumes "result_df m sel = Inr r"
  obtains c b l a where
    "getitem m (client_col sel) = Inr c" "getitem m (brief_name_col sel) = Inr b"
    "getitem m ''Brief_Link'' = Inr l" "getitem m (issued_amount_col sel) = Inr a"
    "r = boolean_mask [(''Client_Name'', c), (''Brief_Name'', b), (''Brief_Link'', l), (''Issued_Amount'', a)]
           (map (\<lambda>x. x \<noteq> Str []) l)"
  using assms
  by (auto simp: result_df_def projected_df_def drop_empty_links_def getitem_def ne_str_def
      split: sum.splits)

lemma unmatched_table_ok:
  assumes "getitem u a = Inr sa" "getitem u b = Inr sb"
  shows "unmatched_table mk u [a, b] = (if len u > 0 then [mk (len u) [(a, sa), (b, sb)]] else [], None)"
  using assms by (simp add: unmatched_table_def)


lemma generate_unmatched_section:
  assumes gen: "generate df1 df2 sel = Inr out"
  shows "\<exists>es. unmatched_section out sel = (es, None) \<and> list_all is_unmatched es"
proof -
  from gen obtain k1 k2 where
    k: "getitem df1 (brief_name_col sel) = Inr k1" "getitem df2 (brief_req_col sel) = Inr k2"
    by (rule generate_Inr)
  from gen k obtain c ids l am llabels rlabels right' where
    g: "getitem (df1_out out) (client_col sel) = Inr c"
       "getitem (df1_out out) (brief_name_col sel) = Inr (normalized k1)"
       "getitem (df2_out out) (brief_req_col sel) = Inr (normalized k2)"
       "getitem (df2_out out) (issued_amount_col sel) = Inr am"
    by (rule generate_merged)
  obtain u1 u2 where
    u1: "unmatched_from_csv1 out sel = Inr u1" "\<exists>m. u1 = boolean_mask (df1_out out) m"
    and u2: "unmatched_from_csv2 out sel = Inr u2" "\<exists>m. u2 = boolean_mask (df2_out out) m"
    using generate_unmatched[OF gen k] by blast
  from u1(2) g obtain a1 b1 where
    t1: "getitem u1 (client_col sel) = Inr a1" "getitem u1 (brief_name_col sel) = Inr b1"
    by (auto simp: getitem_boolean_mask)
  from u2(2) g obtain a2 b2 where
    t2: "getitem u2 (brief_req_col sel) = Inr a2" "getitem u2 (issued_amount_col sel) = Inr b2"
    by (auto simp: getitem_boolean_mask)
  show ?thesis
    by (simp add: unmatched_section_def u1(1) u2(1) unmatched_table_ok[OF t1] unmatched_table_ok[OF t2])
qed

lemma main_page:
  "main read_csv (Some f1) (Some f2) sel button =
     (case read_csv f1 of
        Inl e \<Rightarrow> [ErrorMessage (''Error processing files: '' @ str_error e), Hint]
      | Inr df1 \<Rightarrow>
     (case read_csv f2 of
        Inl e \<Rightarrow> [ErrorMessage (''Error processing files: '' @ str_error e), Hint]
      | Inr df2 \<Rightarrow>
        if \<not> button then [Preview df1, Preview df2]
        else (case generate df1 df2 sel of
                Inl e \<Rightarrow> [Preview df1, Preview df2,
                          ErrorMessage (''Error processing files: '' @ str_error e), Hint]
              | Inr out \<Rightarrow>
                  [Preview df1, Preview df2,
                   Metrics (len (result_out out)) (len (df1_out out)) (len (df2_out out)),
                   ResultTable (result_out out), DownloadButton (result_out out)] @
                  fst (unmatched_section out sel))))"
proof (cases "read_csv f1")
  case (Inl e)
  then show ?thesis by (simp add: main_def try_body_def)
next
  case df1: (Inr df1)
  show ?thesis
  proof (cases "read_csv f2")
    case (Inl e)
    then show ?thesis by (simp add: main_def try_body_def df1)
  next
    case df2: (Inr df2)
    show ?thesis
    proof (cases "generate df1 df2 sel")
      case (Inl e)
      then show ?thesis by (simp add: main_def try_body_def df1 df2)
    next
      case (Inr out)
      from generate_unmatched_section[OF Inr] obtain es where
        "unmatched_section out sel = (es, None)" by blast
      then show ?thesis by (simp add: main_def try_body_def df1 df2 Inr)
    qed
  qed
qed

lemma labels_setitem: "fst ` set (setitem df c s) = insert c (fst ` set df)"
  by (induction df) auto

lemma getitem_Inr_label: "getitem df c = Inr s \<Longrightarrow> c \<in> fst ` set df"
  using getitem_Inr_mem by force


lemma suffix_not_Brief_Link: "x @ ''_x'' \<noteq> ''Brief_Link''" "x @ ''_y'' \<noteq> ''Brief_Link''"
proof -
  have "last (x @ ''_x'') \<noteq> last ''Brief_Link''" "last (x @ ''_y'') \<noteq> last ''Brief_Link''"
    by simp_all
  then show "x @ ''_x'' \<noteq> ''Brief_Link''" "x @ ''_y'' \<noteq> ''Brief_Link''"
    by metis+
qed

lemma overlap_labels:
  assumes "items_overlap_with_suffix ls rs = Inr (ll, rl)"
  shows "ll = map (renamer (filter (\<lambda>x. x \<in> set rs) ls) ''_x'') ls"
    and "rl = map (renamer (filter (\<lambda>x. x \<in> set rs) ls) ''_y'') rs"
  using assms by (auto simp: items_overlap_with_suffix_def Let_def split: if_splits)

lemma getitem_Inr_once: "getitem df c = Inr s \<Longrightarrow> length (filter (\<lambda>p. fst p = c) df) = 1"
  by (auto simp: getitem_Inr_filter)

lemma labels_reindex_and_concat:
  "fst ` set (reindex_and_concat ll rl left right idx) \<subseteq> set ll \<union> set rl"
  unfolding reindex_and_concat_def by (auto dest: set_zip_leftD)

lemma client_not_new_column:
  assumes m: "merged_df a b sel = Inr m"
    and r: "result_df m sel = Inr r"
  shows "client_col sel \<noteq> ''Brief_Link''"
proof
  assume cl: "client_col sel = ''Brief_Link''"
  from m obtain c lkey ids l rkey am llabels rlabels right' where
    meq: "m = reindex_and_concat llabels rlabels
           [(client_col sel, c), (brief_name_col sel, lkey), (brief_id_col sel, ids), (''Brief_Link'', l)]
           right' (join_indexers lkey rkey)"
    and ov: "items_overlap_with_suffix
       [client_col sel, brief_name_col sel, brief_id_col sel, ''Brief_Link''] (map fst right') =
     Inr (llabels, rlabels)"
    by (rule merged_df_Inr)
  define L where "L = [client_col sel, brief_name_col sel, brief_id_col sel, ''Brief_Link'']"
  define tr where "tr = filter (\<lambda>x. x \<in> set (map fst right')) L"
  have ll: "llabels = map (renamer tr ''_x'') L" and rl: "rlabels = map (renamer tr ''_y'') (map fst right')"
    using overlap_labels[OF ov] by (simp_all add: tr_def L_def)
  from r obtain s where s: "getitem m ''Brief_Link'' = Inr s"
    by (rule result_df_Inr)
  show False
  proof (cases "''Brief_Link'' \<in> set tr")
    case True
    have "''Brief_Link'' \<notin> set llabels"
      using True by (auto simp: ll renamer_def suffix_not_Brief_Link)
    moreover have "''Brief_Link'' \<notin> set rlabels"
      using True by (auto simp: rl renamer_def suffix_not_Brief_Link tr_def L_def)
    ultimately have "''Brief_Link'' \<notin> fst ` set m"
      using labels_reindex_and_concat[of llabels rlabels] unfolding meq by blast
    with getitem_Inr_mem[OF s] show False by force
  next
    case False
    then have "renamer tr ''_x'' ''Brief_Link'' = ''Brief_Link''"
      by (simp add: renamer_def)
    then obtain x y where "llabels = [''Brief_Link'', x, y, ''Brief_Link'']"
      by (simp add: ll L_def cl)
    then have "length (filter (\<lambda>p. fst p = ''Brief_Link'') m) \<ge> 2"
      unfolding meq reindex_and_concat_def by simp
    with getitem_Inr_once[OF s] show False by simp
  qed
qed

lemma in_insert_absorb: "x \<in> insert a S \<Longrightarrow> a \<in> S \<Longrightarrow> x \<in> S"
  by auto

lemma in_insert2_absorb: "x \<in> insert b (insert a S) \<Longrightarrow> a \<in> S \<Longrightarrow> x \<noteq> b \<Longrightarrow> x \<in> S"
  by auto

lemma missing_column_error:
  assumes "client_col sel \<notin> fst ` set df1 \<or> brief_name_col sel \<notin> fst ` set df1 \<or>
           brief_id_col sel \<notin> fst ` set df1 \<or> brief_req_col sel \<notin> fst ` set df2 \<or>
           issued_amount_col sel \<notin> fst ` set df2"
  shows "\<exists>e. generate df1 df2 sel = Inl e"
proof (cases "generate df1 df2 sel")
  case (Inl e)
  then show ?thesis by blast
next
  case (Inr out)
  from Inr obtain k1 k2 ids where
    k: "getitem df1 (brief_name_col sel) = Inr k1" "getitem df2 (brief_req_col sel) = Inr k2"
    and i: "getitem (setitem df1 (brief_name_col sel) (normalized k1)) (brief_id_col sel) = Inr ids"
    and d1: "df1_out out = setitem (setitem df1 (brief_name_col sel) (normalized k1)) ''Brief_Link'' (brief_links ids)"
    and d2: "df2_out out = setitem df2 (brief_req_col sel) (normalized k2)"
    and mg: "merged_df (df1_out out) (df2_out out) sel = Inr (merged_out out)"
    and rs: "result_df (merged_out out) sel = Inr (result_out out)"
    by (rule generate_Inr)
  from Inr k obtain c am where
    g: "getitem (df1_out out) (client_col sel) = Inr c"
       "getitem (df2_out out) (issued_amount_col sel) = Inr am"
    by (rule generate_merged)
  have bn: "brief_name_col sel \<in> fst ` set df1"
    using k(1) by (rule getitem_Inr_label)
  have br: "brief_req_col sel \<in> fst ` set df2"
    using k(2) by (rule getitem_Inr_label)
  have "brief_id_col sel \<in> insert (brief_name_col sel) (fst ` set df1)"
    using getitem_Inr_label[OF i] unfolding labels_setitem .
  then have "brief_id_col sel \<in> fst ` set df1"
    using bn by (rule in_insert_absorb)
  moreover have "issued_amount_col sel \<in> insert (brief_req_col sel) (fst ` set df2)"
    using getitem_Inr_label[OF g(2)] unfolding d2 labels_setitem .
  then have "issued_amount_col sel \<in> fst ` set df2"
    using br by (rule in_insert_absorb)
  moreover have "client_col sel \<in> insert ''Brief_Link'' (insert (brief_name_col sel) (fst ` set df1))"
    using getitem_Inr_label[OF g(1)] unfolding d1 labels_setitem .
  then have "client_col sel \<in> fst ` set df1"
    using bn client_not_new_column[OF mg rs] by (rule in_insert2_absorb)
  ultimately show ?thesis using assms bn br by blast
qed

text \<open>The join positions of the cleaned keys, record by record.\<close>

lemma join_indexers_normalized:
  "join_indexers (normalized k1) (normalized k2) =
     concat (map (\<lambda>i.
        case filter (\<lambda>j. strip (py_str (k2 ! j)) = strip (py_str (k1 ! i))) [0..<length k2] of
          [] \<Rightarrow> [(i, None)]
        | j # js \<Rightarrow> map (\<lambda>j. (i, Some j)) (j # js)) [0..<length k1])"
proof -
  have "filter (\<lambda>j. normalized k2 ! j = normalized k1 ! i) [0..<length (normalized k2)] =
        filter (\<lambda>j. strip (py_str (k2 ! j)) = strip (py_str (k1 ! i))) [0..<length k2]"
    if "i < length k1" for i
    using that by (auto simp: normalized_map intro!: filter_cong)
  then show ?thesis
    unfolding join_indexers_def
    by (auto simp: normalized_map intro!: arg_cong[where f = concat] map_cong)
qed

lemma filter_fst_concat_upt:
  assumes "\<And>i'. i' < n \<Longrightarrow> \<forall>p \<in> set (f i'). fst p = i'" and "i < n"
  shows "filter (\<lambda>p. fst p = i) (concat (map f [0..<n])) = f i"
  using assms
proof (induction n)
  case 0
  then show ?case by simp
next
  case (Suc n)
  have own: "filter (\<lambda>p. fst p = i') (f i') = f i'" if "i' < Suc n" for i'
    using Suc.prems(1)[OF that] by (simp add: filter_id_conv)
  have other: "filter (\<lambda>p. fst p = i) (f i') = []" if "i' < Suc n" "i' \<noteq> i" for i'
    using Suc.prems(1)[OF that(1)] that(2) by (auto simp: filter_empty_conv)
  show ?case
  proof (cases "i < n")
    case True
    then have "filter (\<lambda>p. fst p = i) (concat (map f [0..<n])) = f i"
      using Suc.IH Suc.prems(1) by simp
    moreover have "filter (\<lambda>p. fst p = i) (f n) = []"
      using other[of n] True by simp
    ultimately show ?thesis by simp
  next
    case False
    with Suc.prems(2) have i: "i = n" by simp
    have "fst p \<noteq> n" if "p \<in> set (concat (map f [0..<n]))" for p
    proof -
      from that obtain i' where "i' < n" "p \<in> set (f i')" by auto
      with Suc.prems(1)[of i'] show ?thesis by auto
    qed
    then have "filter (\<lambda>p. fst p = n) (concat (map f [0..<n])) = []"
      unfolding filter_empty_conv by blast
    then show ?thesis
      using own[of n] by (simp add: i)
  qed
qed

lemma rows_of_primary:
  assumes "i < length k1"
  shows "filter (\<lambda>p. fst p = i) (join_indexers (normalized k1) (normalized k2)) =
     (case filter (\<lambda>j. strip (py_str (k2 ! j)) = strip (py_str (k1 ! i))) [0..<length k2] of
        [] \<Rightarrow> [(i, None)]
      | j # js \<Rightarrow> map (\<lambda>j. (i, Some j)) (j # js))"
  unfolding join_indexers_normalized
  by (rule filter_fst_concat_upt[OF _ assms]) (auto split: list.splits)

lemma map_snd_reindex_and_concat:
  "length llabels = length left \<Longrightarrow> length rlabels = length right \<Longrightarrow>
   map snd (reindex_and_concat llabels rlabels left right idx) =
     map (\<lambda>p. take_left idx (snd p)) left @ map (\<lambda>p. take_right idx (snd p)) right"
  by (simp add: reindex_and_concat_def)

section \<open>The example uploads, evaluated\<close>

lemmas eval_defs =
  generate_def clean_def normalized_def str_strip_def astype_str_def strip_def isspace_def
  generate_links_def brief_links_def link_lambda_def pd_notna_def base_url_def
  merged_df_def merge_def getitem_def join_indexers_def take_left_def take_right_def
  items_overlap_with_suffix_def renamer_def new_duplicates_def reindex_and_concat_def
  result_df_def projected_df_def drop_empty_links_def boolean_mask_def ne_str_def
  selection_example_def

lemma generate_example:
  "generate primary_example secondary_example selection_example = Inr outputs_example"
  by (simp add: eval_defs primary_example_def secondary_example_def outputs_example_def Let_def)

lemma generate_repeated:
  "generate primary_example secondary_repeated selection_example = Inr outputs_repeated"
  by (simp add: eval_defs primary_example_def secondary_repeated_def outputs_repeated_def Let_def)

lemma generate_missing:
  "generate primary_missing secondary_missing selection_example = Inr outputs_missing"
  by (simp add: eval_defs primary_missing_def secondary_missing_def outputs_missing_def Let_def)

lemma selection_example_simps:
  "client_col selection_example = ''Client''" "brief_name_col selection_example = ''Brief''"
  "brief_id_col selection_example = ''ID''" "brief_req_col selection_example = ''Req''"
  "issued_amount_col selection_example = ''Amount''"
  by (simp_all add: selection_example_def)

lemma getitem_examples:
  "getitem primary_example (brief_name_col selection_example) = Inr [Str '' Alpha '', Str ''Beta'']"
  "getitem secondary_example (brief_req_col selection_example) = Inr [Str ''Alpha'']"
  "getitem secondary_repeated (brief_req_col selection_example) = Inr [Str ''Alpha'', Str ''Alpha'']"
  "getitem primary_missing (brief_name_col selection_example) = Inr [NaN, Str ''Beta'']"
  "getitem secondary_missing (brief_req_col selection_example) = Inr [Str ''alpha'', NaN]"
  by (simp_all add: getitem_def selection_example_def primary_example_def secondary_example_def
      secondary_repeated_def primary_missing_def secondary_missing_def)

section \<open>The claims\<close>

text \<open>
  C1 (the code departs from the claim).  The claim: the derived link is the fixed prefix
  followed by the trimmed text of the Brief ID, and it is the empty text when the Brief ID
  is missing or empty after trimming.  The lambda tests \<^verbatim>\<open>pd.notna(x)\<close> for this, but on a
  value that \<^verbatim>\<open>astype(str)\<close> has already turned into the text \<^verbatim>\<open>nan\<close>: a record without a
  Brief ID gets the link that ends in \<^verbatim>\<open>brief=nan\<close>, and the record stays in the result.
\<close>

theorem missing_brief_id_link:
  "brief_links [Str ''x1'', NaN] =
     [Str ''https://app.bulbshare.com/2/briefs/create_brief.html?brief=x1'',
      Str ''https://app.bulbshare.com/2/briefs/create_brief.html?brief=nan''] \<and>
   map_sum id result_out (generate primary_example secondary_example selection_example) =
     Inr [(''Client_Name'', [Str ''A'', Str ''B'']),
          (''Brief_Name'', [Str ''Alpha'', Str ''Beta'']),
          (''Brief_Link'',
           [Str ''https://app.bulbshare.com/2/briefs/create_brief.html?brief=x1'',
            Str ''https://app.bulbshare.com/2/briefs/create_brief.html?brief=nan'']),
          (''Issued_Amount'', [Num 1000, NaN])]"
  unfolding generate_example
  by (simp add: outputs_example_def brief_links_def link_lambda_def astype_str_def base_url_def
      strip_def isspace_def pd_notna_def)

text \<open>
  C2, as stated: the join gives exactly one row per Primary record.  It does not when a
  key occurs twice in Secondary: two Primary records give three joined rows.
\<close>

theorem join_repeats_primary_rows:
  "map_sum id (len \<circ> merged_out) (generate primary_example secondary_repeated selection_example) = Inr 3 \<and>
   len primary_example = 2"
  unfolding generate_repeated by (simp add: len_def primary_example_def outputs_repeated_def)

text \<open>
  C2, amended: the merged frame holds the selected Primary columns read at the left join
  positions and the selected Secondary columns read at the right join positions.  The
  join positions list, for every Primary record in order, one pair for each Secondary
  record whose cleaned key equals its cleaned key, in Secondary order, and exactly one
  pair without a Secondary position when there is none; the Secondary fields of such a
  row are \<^verbatim>\<open>NaN\<close>.  So the number of joined rows is the sum, over the Primary records, of
  the larger of 1 and the number of their partners, and it is the number of Primary
  records when no cleaned key occurs twice in Secondary.
\<close>

theorem join_row_count:
  assumes "generate df1 df2 sel = Inr out"
    and "getitem df1 (brief_name_col sel) = Inr k1"
    and "getitem df2 (brief_req_col sel) = Inr k2"
  shows "(\<exists>left right right'.
           select (df1_out out) [client_col sel, brief_name_col sel, brief_id_col sel, ''Brief_Link''] = Inr left \<and>
           select (df2_out out) [brief_req_col sel, issued_amount_col sel] = Inr right \<and>
           right' = (if brief_name_col sel = brief_req_col sel
                     then filter (\<lambda>p. fst p \<noteq> brief_req_col sel) right else right) \<and>
           map snd (merged_out out) =
             map (\<lambda>p. take_left (join_indexers (normalized k1) (normalized k2)) (snd p)) left @
             map (\<lambda>p. take_right (join_indexers (normalized k1) (normalized k2)) (snd p)) right') \<and>
         join_indexers (normalized k1) (normalized k2) =
           concat (map (\<lambda>i.
              case filter (\<lambda>j. strip (py_str (k2 ! j)) = strip (py_str (k1 ! i))) [0..<length k2] of
                [] \<Rightarrow> [(i, None)]
              | j # js \<Rightarrow> map (\<lambda>j. (i, Some j)) (j # js)) [0..<length k1]) \<and>
         (\<forall>i < length k1.
            filter (\<lambda>p. fst p = i) (join_indexers (normalized k1) (normalized k2)) =
              (case filter (\<lambda>j. strip (py_str (k2 ! j)) = strip (py_str (k1 ! i))) [0..<length k2] of
                 [] \<Rightarrow> [(i, None)]
               | j # js \<Rightarrow> map (\<lambda>j. (i, Some j)) (j # js))) \<and>
         (\<forall>s n. n < length (join_indexers (normalized k1) (normalized k2)) \<longrightarrow>
            snd (join_indexers (normalized k1) (normalized k2) ! n) = None \<longrightarrow>
            take_right (join_indexers (normalized k1) (normalized k2)) s ! n = NaN) \<and>
         len (merged_out out) =
           sum_list (map (\<lambda>x. max 1 (count_list (normalized k2) x)) (normalized k1)) \<and>
         (distinct (normalized k2) \<longrightarrow> len (merged_out out) = length k1)"
proof -
  let ?idx = "join_indexers (normalized k1) (normalized k2)"
  from generate_join[OF assms] obtain llabels rlabels left right right' where
    s: "select (df1_out out) [client_col sel, brief_name_col sel, brief_id_col sel, ''Brief_Link''] = Inr left"
       "select (df2_out out) [brief_req_col sel, issued_amount_col sel] = Inr right"
       "right' = (if brief_name_col sel = brief_req_col sel
                     then filter (\<lambda>p. fst p \<noteq> brief_req_col sel) right else right)"
    and len: "length left = 4" "length llabels = 4" "length rlabels = length right'"
    and m: "merged_out out = reindex_and_concat llabels rlabels left right' ?idx"
    by blast
  have cols: "map snd (merged_out out) =
             map (\<lambda>p. take_left ?idx (snd p)) left @ map (\<lambda>p. take_right ?idx (snd p)) right'"
    unfolding m using len by (simp add: map_snd_reindex_and_concat)
  have absent: "take_right ?idx s ! n = NaN"
    if "n < length ?idx" "snd (?idx ! n) = None" for s n
    using that by (simp add: take_right_def)
  from assms obtain c ids l am ll rl r' where
    "length ll = 4"
    "merged_out out = reindex_and_concat ll rl
           [(client_col sel, c), (brief_name_col sel, normalized k1), (brief_id_col sel, ids), (''Brief_Link'', l)]
           r' ?idx"
    by (rule generate_merged)
  then have n: "len (merged_out out) = length ?idx"
    by (simp add: len_reindex_and_concat)
  have "length (normalized k1) = length k1"
    by (simp add: normalized_map)
  then have d: "distinct (normalized k2) \<Longrightarrow> len (merged_out out) = length k1"
    by (simp add: n length_join_indexers_distinct)
  have total: "len (merged_out out) =
           sum_list (map (\<lambda>x. max 1 (count_list (normalized k2) x)) (normalized k1))"
    unfolding n length_join_indexers ..
  show ?thesis
    using s cols join_indexers_normalized[of k1 k2] rows_of_primary[of _ k1 k2] absent total d
    by blast
qed

theorem join_row_count_witness:
  "generate primary_example secondary_example selection_example = Inr outputs_example \<and>
   distinct (normalized [Str ''Alpha'']) \<and>
   len (merged_out outputs_example) = length [Str '' Alpha '', Str ''Beta''] \<and>
   generate primary_example secondary_repeated selection_example = Inr outputs_repeated \<and>
   join_indexers (normalized [Str '' Alpha '', Str ''Beta'']) (normalized [Str ''Alpha'', Str ''Alpha'']) =
     [(0, Some 0), (0, Some 1), (1, None)] \<and>
   len (merged_out outputs_repeated) = 3"
proof -
  have "len (merged_out outputs_example) = length [Str '' Alpha '', Str ''Beta'']"
    using join_row_count[OF generate_example getitem_examples(1) getitem_examples(2)]
    by (simp add: normalized_map)
  moreover
  note r = join_row_count[OF generate_repeated getitem_examples(1) getitem_examples(3)]
  from r have "join_indexers (normalized [Str '' Alpha '', Str ''Beta'']) (normalized [Str ''Alpha'', Str ''Alpha'']) =
     concat (map (\<lambda>i.
        case filter (\<lambda>j. strip (py_str ([Str ''Alpha'', Str ''Alpha''] ! j)) =
                           strip (py_str ([Str '' Alpha '', Str ''Beta''] ! i)))
               [0..<length [Str ''Alpha'', Str ''Alpha'']] of
          [] \<Rightarrow> [(i, None)]
        | j # js \<Rightarrow> map (\<lambda>j. (i, Some j)) (j # js)) [0..<length [Str '' Alpha '', Str ''Beta'']])"
    by blast
  then have "join_indexers (normalized [Str '' Alpha '', Str ''Beta'']) (normalized [Str ''Alpha'', Str ''Alpha'']) =
     [(0, Some 0), (0, Some 1), (1, None)]"
    by (simp add: strip_def isspace_def)
  moreover have "len (merged_out outputs_repeated) = 3"
    by (simp add: outputs_repeated_def len_def)
  ultimately show ?thesis
    by (simp add: generate_example generate_repeated normalized_map)
qed

text \<open>
  C3, as stated: a missing value is the empty text after cleaning.  It is the text
  \<^verbatim>\<open>nan\<close>.
\<close>

theorem clean_missing_value:
  "clean [(''Brief'', [NaN])] ''Brief'' = Inr [(''Brief'', [Str ''nan''])] \<and>
   clean [(''Brief'', [NaN])] ''Brief'' \<noteq> Inr [(''Brief'', [Str ''''])]"
  by (simp add: clean_def normalized_def str_strip_def astype_str_def getitem_def strip_def isspace_def)

text \<open>
  C3, amended: cleaning a column replaces every value of that column by its text form
  with leading and trailing whitespace removed, and leaves the other columns alone; a
  missing value becomes the text \<^verbatim>\<open>nan\<close>.
\<close>

theorem clean_column:
  assumes "getitem df c = Inr s"
  shows "\<exists>df'. clean df c = Inr df' \<and>
           getitem df' c = Inr (map (\<lambda>x. Str (strip (py_str x))) s) \<and>
           (\<forall>c'. c' \<noteq> c \<longrightarrow> getitem df' c' = getitem df c') \<and>
           map fst df' = map fst df \<and>
           (\<forall>i < length s. s ! i = NaN \<longrightarrow> map (\<lambda>x. Str (strip (py_str x))) s ! i = Str ''nan'')"
proof -
  have "map fst (setitem df c t) = map fst df" for t
    using getitem_Inr_label[OF assms] by (induction df) auto
  then show ?thesis
    using assms
    by (simp add: clean_def normalized_map getitem_setitem_same getitem_setitem_other
        strip_def isspace_def)
qed

theorem clean_column_witness:
  "getitem primary_missing ''Brief'' = Inr [NaN, Str ''Beta''] \<and>
   (\<exists>df'. clean primary_missing ''Brief'' = Inr df' \<and>
          getitem df' ''Brief'' = Inr [Str ''nan'', Str ''Beta''] \<and>
          getitem df' ''ID'' = getitem primary_missing ''ID'')"
proof -
  have g: "getitem primary_missing ''Brief'' = Inr [NaN, Str ''Beta'']"
    using getitem_examples(4) by (simp add: selection_example_simps)
  from clean_column[OF g] obtain df' where
    d: "clean primary_missing ''Brief'' = Inr df'"
       "getitem df' ''Brief'' = Inr (map (\<lambda>x. Str (strip (py_str x))) [NaN, Str ''Beta''])"
       "\<forall>c'. c' \<noteq> ''Brief'' \<longrightarrow> getitem df' c' = getitem primary_missing c'"
    by blast
  have "getitem df' ''ID'' = getitem primary_missing ''ID''"
    using d(3) by simp
  moreover have "getitem df' ''Brief'' = Inr [Str ''nan'', Str ''Beta'']"
    using d(2) by (simp add: strip_def isspace_def)
  ultimately show ?thesis
    using d(1) g by blast
qed

lemma join_partner_iff:
  "(i, Some j) \<in> set (join_indexers (normalized k1) (normalized k2)) \<longleftrightarrow>
     i < length k1 \<and> j < length k2 \<and> strip (py_str (k1 ! i)) = strip (py_str (k2 ! j))"
  unfolding in_join_indexers_Some by (auto simp: normalized_map)

text \<open>
  C4: a Primary record is listed as unmatched exactly when its cleaned Brief Name equals no
  cleaned Brief Requirement of Secondary, which is exactly when the join gave it no
  partner; and the same for Secondary records against the Brief Names.
\<close>

theorem unmatched_complement:
  assumes "generate df1 df2 sel = Inr out"
    and "getitem df1 (brief_name_col sel) = Inr k1"
    and "getitem df2 (brief_req_col sel) = Inr k2"
  shows "unmatched_from_csv1 out sel =
           Inr (boolean_mask (df1_out out)
                  (map (\<lambda>x. \<forall>y \<in> set k2. strip (py_str y) \<noteq> strip (py_str x)) k1)) \<and>
         unmatched_from_csv2 out sel =
           Inr (boolean_mask (df2_out out)
                  (map (\<lambda>y. \<forall>x \<in> set k1. strip (py_str x) \<noteq> strip (py_str y)) k2)) \<and>
         (\<forall>i < length k1.
            (\<forall>y \<in> set k2. strip (py_str y) \<noteq> strip (py_str (k1 ! i))) \<longleftrightarrow>
            \<not> (\<exists>j. (i, Some j) \<in> set (join_indexers (normalized k1) (normalized k2)))) \<and>
         (\<forall>j < length k2.
            (\<forall>x \<in> set k1. strip (py_str x) \<noteq> strip (py_str (k2 ! j))) \<longleftrightarrow>
            \<not> (\<exists>i. (i, Some j) \<in> set (join_indexers (normalized k1) (normalized k2))))"
proof -
  have a: "(\<forall>y \<in> set k2. strip (py_str y) \<noteq> strip (py_str (k1 ! i))) \<longleftrightarrow>
            \<not> (\<exists>j. (i, Some j) \<in> set (join_indexers (normalized k1) (normalized k2)))"
    if "i < length k1" for i
    unfolding join_partner_iff all_set_conv_all_nth using that by auto
  have b: "(\<forall>x \<in> set k1. strip (py_str x) \<noteq> strip (py_str (k2 ! j))) \<longleftrightarrow>
            \<not> (\<exists>i. (i, Some j) \<in> set (join_indexers (normalized k1) (normalized k2)))"
    if "j < length k2" for j
    unfolding join_partner_iff all_set_conv_all_nth using that by auto
  show ?thesis
    using generate_unmatched[OF assms] a b by blast
qed


theorem unmatched_complement_witness:
  "generate primary_example secondary_example selection_example = Inr outputs_example \<and>
   unmatched_from_csv1 outputs_example selection_example =
     Inr [(''Client'', [Str ''B'']), (''Brief'', [Str ''Beta'']), (''ID'', [NaN]),
          (''Brief_Link'', [Str ''https://app.bulbshare.com/2/briefs/create_brief.html?brief=nan''])] \<and>
   unmatched_from_csv2 outputs_example selection_example = Inr [(''Req'', []), (''Amount'', [])]"
proof -
  note t = unmatched_complement[OF generate_example getitem_examples(1) getitem_examples(2)]
  from t have "unmatched_from_csv1 outputs_example selection_example =
      Inr (boolean_mask (df1_out outputs_example)
             (map (\<lambda>x. \<forall>y \<in> set [Str ''Alpha'']. strip (py_str y) \<noteq> strip (py_str x))
                [Str '' Alpha '', Str ''Beta'']))"
    by blast
  moreover from t have "unmatched_from_csv2 outputs_example selection_example =
      Inr (boolean_mask (df2_out outputs_example)
             (map (\<lambda>y. \<forall>x \<in> set [Str '' Alpha '', Str ''Beta'']. strip (py_str x) \<noteq> strip (py_str y))
                [Str ''Alpha'']))"
    by blast
  ultimately show ?thesis
    by (simp add: generate_example outputs_example_def boolean_mask_def strip_def isspace_def)
qed

text \<open>
  C5: the merged frame is built from the join positions of the cleaned key columns, and
  position \<open>i\<close> of Primary is paired with position \<open>j\<close> of Secondary exactly when the
  trimmed text forms of the two keys are equal as texts (so the comparison is
  case-sensitive); a Primary position without such a partner is kept once, unpaired.
\<close>

theorem trimmed_key_match:
  assumes "generate df1 df2 sel = Inr out"
    and "getitem df1 (brief_name_col sel) = Inr k1"
    and "getitem df2 (brief_req_col sel) = Inr k2"
  shows "\<exists>llabels rlabels left right right'.
           select (df1_out out) [client_col sel, brief_name_col sel, brief_id_col sel, ''Brief_Link''] = Inr left \<and>
           select (df2_out out) [brief_req_col sel, issued_amount_col sel] = Inr right \<and>
           right' = (if brief_name_col sel = brief_req_col sel
                     then filter (\<lambda>p. fst p \<noteq> brief_req_col sel) right else right) \<and>
           merged_out out =
             reindex_and_concat llabels rlabels left right'
               (join_indexers (normalized k1) (normalized k2)) \<and>
           (\<forall>i j. (i, Some j) \<in> set (join_indexers (normalized k1) (normalized k2)) \<longleftrightarrow>
                  i < length k1 \<and> j < length k2 \<and>
                  strip (py_str (k1 ! i)) = strip (py_str (k2 ! j))) \<and>
           (\<forall>i. (i, None) \<in> set (join_indexers (normalized k1) (normalized k2)) \<longleftrightarrow>
                  i < length k1 \<and>
                  (\<forall>j < length k2. strip (py_str (k1 ! i)) \<noteq> strip (py_str (k2 ! j))))"
proof -
  have "(i, None) \<in> set (join_indexers (normalized k1) (normalized k2)) \<longleftrightarrow>
          i < length k1 \<and> (\<forall>j < length k2. strip (py_str (k1 ! i)) \<noteq> strip (py_str (k2 ! j)))" for i
    unfolding in_join_indexers_None by (auto simp: normalized_map)
  then show ?thesis
    using generate_join[OF assms] join_partner_iff[of _ _ k1 k2] by blast
qed

theorem trimmed_key_match_witness:
  "generate primary_example secondary_example selection_example = Inr outputs_example \<and>
     [Str '' Alpha '', Str ''Beta''] ! 0 = Str '' Alpha '' \<and> [Str ''Alpha''] ! 0 = Str ''Alpha'' \<and>
     (0, Some 0) \<in> set (join_indexers (normalized [Str '' Alpha '', Str ''Beta'']) (normalized [Str ''Alpha''])) \<and>
     (1, None) \<in> set (join_indexers (normalized [Str '' Alpha '', Str ''Beta'']) (normalized [Str ''Alpha'']))"
proof -
  let ?idx = "join_indexers (normalized [Str '' Alpha '', Str ''Beta'']) (normalized [Str ''Alpha''])"
  note t = trimmed_key_match[OF generate_example getitem_examples(1) getitem_examples(2)]
  from t have a: "(i, Some j) \<in> set ?idx \<longleftrightarrow>
      i < length [Str '' Alpha '', Str ''Beta''] \<and> j < length [Str ''Alpha''] \<and>
      strip (py_str ([Str '' Alpha '', Str ''Beta''] ! i)) = strip (py_str ([Str ''Alpha''] ! j))" for i j
    by blast
  from t have b: "(i, None) \<in> set ?idx \<longleftrightarrow>
      i < length [Str '' Alpha '', Str ''Beta''] \<and>
      (\<forall>j < length [Str ''Alpha'']. strip (py_str ([Str '' Alpha '', Str ''Beta''] ! i)) \<noteq>
         strip (py_str ([Str ''Alpha''] ! j)))" for i
    by blast
  have "(0, Some 0) \<in> set ?idx"
    unfolding a by (simp add: strip_def isspace_def)
  moreover have "(1, None) \<in> set ?idx"
    unfolding b by (simp add: strip_def isspace_def)
  ultimately show ?thesis
    by (simp add: generate_example)
qed

text \<open>
  C6: the final frame has the four fixed labels Client_Name, Brief_Name, Brief_Link and
  Issued_Amount, holding the columns of the merged frame that the selection names, with
  the rows whose Brief_Link is the empty text removed; so no Brief_Link of the final
  frame is the empty text.
\<close>

theorem result_projection:
  assumes "generate df1 df2 sel = Inr out"
  shows "\<exists>c b l a.
           getitem (merged_out out) (client_col sel) = Inr c \<and>
           getitem (merged_out out) (brief_name_col sel) = Inr b \<and>
           getitem (merged_out out) ''Brief_Link'' = Inr l \<and>
           getitem (merged_out out) (issued_amount_col sel) = Inr a \<and>
           result_out out =
             boolean_mask
               [(''Client_Name'', c), (''Brief_Name'', b), (''Brief_Link'', l), (''Issued_Amount'', a)]
               (map (\<lambda>x. x \<noteq> Str []) l) \<and>
           map fst (result_out out) = [''Client_Name'', ''Brief_Name'', ''Brief_Link'', ''Issued_Amount''] \<and>
           getitem (result_out out) ''Brief_Link'' = Inr (filter (\<lambda>x. x \<noteq> Str []) l) \<and>
           Str [] \<notin> set (filter (\<lambda>x. x \<noteq> Str []) l)"
proof -
  from assms have "result_df (merged_out out) sel = Inr (result_out out)"
    by (rule generate_Inr)
  then obtain c b l a where
    g: "getitem (merged_out out) (client_col sel) = Inr c"
       "getitem (merged_out out) (brief_name_col sel) = Inr b"
       "getitem (merged_out out) ''Brief_Link'' = Inr l"
       "getitem (merged_out out) (issued_amount_col sel) = Inr a"
    and r: "result_out out =
             boolean_mask
               [(''Client_Name'', c), (''Brief_Name'', b), (''Brief_Link'', l), (''Issued_Amount'', a)]
               (map (\<lambda>x. x \<noteq> Str []) l)"
    by (rule result_df_Inr)
  have "map fst (result_out out) = [''Client_Name'', ''Brief_Name'', ''Brief_Link'', ''Issued_Amount'']"
    by (simp add: r boolean_mask_def)
  moreover have "getitem (result_out out) ''Brief_Link'' = Inr (filter (\<lambda>x. x \<noteq> Str []) l)"
    by (simp add: r boolean_mask_def getitem_def masked_column)
  ultimately show ?thesis
    using g r by auto
qed

theorem result_projection_witness:
  "generate primary_missing secondary_missing selection_example = Inr outputs_missing \<and>
   getitem (merged_out outputs_missing) ''Brief_Link'' =
     Inr [Str ''https://app.bulbshare.com/2/briefs/create_brief.html?brief=x1'', Str []] \<and>
   getitem (result_out outputs_missing) ''Brief_Link'' =
     Inr [Str ''https://app.bulbshare.com/2/briefs/create_brief.html?brief=x1'']"
proof -
  from result_projection[OF generate_missing] obtain l where
    l: "getitem (merged_out outputs_missing) ''Brief_Link'' = Inr l"
       "getitem (result_out outputs_missing) ''Brief_Link'' = Inr (filter (\<lambda>x. x \<noteq> Str []) l)"
    by blast
  have m: "getitem (merged_out outputs_missing) ''Brief_Link'' =
     Inr [Str ''https://app.bulbshare.com/2/briefs/create_brief.html?brief=x1'', Str []]"
    by (simp add: outputs_missing_def getitem_def)
  with l(1) have "l = [Str ''https://app.bulbshare.com/2/briefs/create_brief.html?brief=x1'', Str []]"
    by simp
  with l(2) m show ?thesis
    by (simp add: generate_missing)
qed




lemma reindex_left_column:
  "length llabels = length left \<Longrightarrow> n < length left \<Longrightarrow>
   snd (reindex_and_concat llabels rlabels left right idx ! n) =
     map (\<lambda>i. snd (left ! n) ! i) (map fst idx)"
  by (simp add: reindex_and_concat_def nth_append take_left_def comp_def)

text \<open>
  C8: the columns of the merged frame that come from Primary are the Primary columns
  read at a list of positions that never decreases and that contains every Primary
  position: the joined rows follow the order of the Primary records.
\<close>

theorem join_preserves_order:
  assumes "generate df1 df2 sel = Inr out"
    and "getitem df1 (brief_name_col sel) = Inr k1"
    and "getitem df2 (brief_req_col sel) = Inr k2"
  shows "\<exists>left.
           select (df1_out out) [client_col sel, brief_name_col sel, brief_id_col sel, ''Brief_Link''] = Inr left \<and>
           (\<forall>n < 4. snd (merged_out out ! n) =
                      map (\<lambda>i. snd (left ! n) ! i)
                        (map fst (join_indexers (normalized k1) (normalized k2)))) \<and>
           sorted (map fst (join_indexers (normalized k1) (normalized k2))) \<and>
           set (map fst (join_indexers (normalized k1) (normalized k2))) = {0..<length k1}"
proof -
  from generate_join[OF assms] obtain llabels rlabels left right' where
    s: "select (df1_out out) [client_col sel, brief_name_col sel, brief_id_col sel, ''Brief_Link''] = Inr left"
    and len: "length left = 4" "length llabels = 4"
    and m: "merged_out out =
             reindex_and_concat llabels rlabels left right'
               (join_indexers (normalized k1) (normalized k2))"
    by blast
  have "\<forall>n < 4. snd (merged_out out ! n) =
                      map (\<lambda>i. snd (left ! n) ! i)
                        (map fst (join_indexers (normalized k1) (normalized k2)))"
    unfolding m using len by (simp add: reindex_left_column)
  moreover have "set (map fst (join_indexers (normalized k1) (normalized k2))) = {0..<length k1}"
    unfolding set_fst_join_indexers by (simp add: normalized_map)
  ultimately show ?thesis
    using s sorted_join_indexers by blast
qed

theorem join_preserves_order_witness:
  "generate primary_example secondary_repeated selection_example = Inr outputs_repeated \<and>
   map fst (join_indexers (normalized [Str '' Alpha '', Str ''Beta'']) (normalized [Str ''Alpha'', Str ''Alpha''])) =
     [0, 0, 1] \<and>
   sorted (map fst (join_indexers (normalized [Str '' Alpha '', Str ''Beta'']) (normalized [Str ''Alpha'', Str ''Alpha''])))"
proof -
  have "sorted (map fst (join_indexers (normalized [Str '' Alpha '', Str ''Beta'']) (normalized [Str ''Alpha'', Str ''Alpha''])))"
    using join_preserves_order[OF generate_repeated getitem_examples(1) getitem_examples(3)]
    by blast
  moreover have "map fst (join_indexers (normalized [Str '' Alpha '', Str ''Beta'']) (normalized [Str ''Alpha'', Str ''Alpha''])) =
     [0, 0, 1]"
    by (simp add: join_indexers_def normalized_map strip_def isspace_def)
  ultimately show ?thesis
    by (simp add: generate_repeated)
qed

lemma generate_missing_column:
  "generate primary_example secondary_example (selection_example\<lparr>client_col := ''Name''\<rparr>) =
     Inl (KeyError ''Name'')"
  by (simp add: eval_defs primary_example_def secondary_example_def Let_def)

lemma unmatched_section_example:
  "unmatched_section outputs_example selection_example =
     ([UnmatchedCsv1 1 [(''Client'', [Str ''B'']), (''Brief'', [Str ''Beta''])]], None)"
  by (simp add: unmatched_section_def unmatched_from_csv1_def unmatched_from_csv2_def unmatched_def
      unmatched_table_def isin_def boolean_mask_def len_def getitem_def outputs_example_def
      selection_example_def)

text \<open>
  C10: a run of the page with both files uploaded and the button pressed writes either an
  error message in place of every result (when a file does not parse, before anything
  else; when the transformation raises, after the two previews of the uploads), or the
  previews followed by the complete result table, its download and the lists of unmatched
  records.  Once the transformation has returned, nothing that follows raises.  A selected
  column that is not in its upload makes the transformation raise.
\<close>

theorem all_or_nothing:
  "main read_csv (Some f1) (Some f2) sel True =
     (case read_csv f1 of
        Inl e \<Rightarrow> [ErrorMessage (''Error processing files: '' @ str_error e), Hint]
      | Inr df1 \<Rightarrow>
     (case read_csv f2 of
        Inl e \<Rightarrow> [ErrorMessage (''Error processing files: '' @ str_error e), Hint]
      | Inr df2 \<Rightarrow>
     (case generate df1 df2 sel of
        Inl e \<Rightarrow> [Preview df1, Preview df2,
                  ErrorMessage (''Error processing files: '' @ str_error e), Hint]
      | Inr out \<Rightarrow>
          [Preview df1, Preview df2,
           Metrics (len (result_out out)) (len (df1_out out)) (len (df2_out out)),
           ResultTable (result_out out), DownloadButton (result_out out)] @
          fst (unmatched_section out sel)))) \<and>
   (\<forall>df1 df2 out. generate df1 df2 sel = Inr out \<longrightarrow>
      snd (unmatched_section out sel) = None \<and>
      list_all is_unmatched (fst (unmatched_section out sel))) \<and>
   (\<forall>df1 df2.
      client_col sel \<notin> fst ` set df1 \<or> brief_name_col sel \<notin> fst ` set df1 \<or>
      brief_id_col sel \<notin> fst ` set df1 \<or> brief_req_col sel \<notin> fst ` set df2 \<or>
      issued_amount_col sel \<notin> fst ` set df2 \<longrightarrow>
      (\<exists>e. generate df1 df2 sel = Inl e))"
proof (intro conjI allI impI)
  show "main read_csv (Some f1) (Some f2) sel True =
     (case read_csv f1 of
        Inl e \<Rightarrow> [ErrorMessage (''Error processing files: '' @ str_error e), Hint]
      | Inr df1 \<Rightarrow>
     (case read_csv f2 of
        Inl e \<Rightarrow> [ErrorMessage (''Error processing files: '' @ str_error e), Hint]
      | Inr df2 \<Rightarrow>
     (case generate df1 df2 sel of
        Inl e \<Rightarrow> [Preview df1, Preview df2,
                  ErrorMessage (''Error processing files: '' @ str_error e), Hint]
      | Inr out \<Rightarrow>
          [Preview df1, Preview df2,
           Metrics (len (result_out out)) (len (df1_out out)) (len (df2_out out)),
           ResultTable (result_out out), DownloadButton (result_out out)] @
          fst (unmatched_section out sel))))"
    unfolding main_page by (simp split: sum.splits)
next
  fix df1 df2 out
  assume "generate df1 df2 sel = Inr out"
  from generate_unmatched_section[OF this]
  show "snd (unmatched_section out sel) = None"
    and "list_all is_unmatched (fst (unmatched_section out sel))"
    by auto
next
  fix df1 df2 :: dataframe
  assume "client_col sel \<notin> fst ` set df1 \<or> brief_name_col sel \<notin> fst ` set df1 \<or>
      brief_id_col sel \<notin> fst ` set df1 \<or> brief_req_col sel \<notin> fst ` set df2 \<or>
      issued_amount_col sel \<notin> fst ` set df2"
  then show "\<exists>e. generate df1 df2 sel = Inl e"
    by (rule missing_column_error)
qed

theorem all_or_nothing_witness:
  "main (\<lambda>f::bool. Inl (ParserError ''No columns to parse from file'')) (Some True) (Some False)
     selection_example True =
     [ErrorMessage ''Error processing files: No columns to parse from file'', Hint] \<and>
   main (\<lambda>f. if f then Inr primary_example else Inr secondary_example) (Some True) (Some False)
     (selection_example\<lparr>client_col := ''Name''\<rparr>) True =
     [Preview primary_example, Preview secondary_example,
      ErrorMessage (''Error processing files: '' @ [CHR 0x27] @ ''Name'' @ [CHR 0x27]), Hint] \<and>
   main (\<lambda>f. if f then Inr primary_example else Inr secondary_example) (Some True) (Some False)
     selection_example True =
     [Preview primary_example, Preview secondary_example, Metrics 2 2 1,
      ResultTable (result_out outputs_example), DownloadButton (result_out outputs_example),
      UnmatchedCsv1 1 [(''Client'', [Str ''B'']), (''Brief'', [Str ''Beta''])]]"
proof -
  have "main (\<lambda>f::bool. Inl (ParserError ''No columns to parse from file'')) (Some True) (Some False)
     selection_example True =
     [ErrorMessage ''Error processing files: No columns to parse from file'', Hint]"
    using all_or_nothing[of "\<lambda>f::bool. Inl (ParserError ''No columns to parse from file'')" True False
        selection_example]
    by simp
  moreover have "main (\<lambda>f. if f then Inr primary_example else Inr secondary_example) (Some True) (Some False)
     (selection_example\<lparr>client_col := ''Name''\<rparr>) True =
     [Preview primary_example, Preview secondary_example,
      ErrorMessage (''Error processing files: '' @ [CHR 0x27] @ ''Name'' @ [CHR 0x27]), Hint]"
    using all_or_nothing[of "\<lambda>f. if f then Inr primary_example else Inr secondary_example" True False
        "selection_example\<lparr>client_col := ''Name''\<rparr>"]
    by (simp add: generate_missing_column)
  moreover have "main (\<lambda>f. if f then Inr primary_example else Inr secondary_example) (Some True) (Some False)
     selection_example True =
     [Preview primary_example, Preview secondary_example, Metrics 2 2 1,
      ResultTable (result_out outputs_example), DownloadButton (result_out outputs_example),
      UnmatchedCsv1 1 [(''Client'', [Str ''B'']), (''Brief'', [Str ''Beta''])]]"
    using all_or_nothing[of "\<lambda>f. if f then Inr primary_example else Inr secondary_example" True False
        selection_example]
    by (simp add: generate_example unmatched_section_example)
       (simp add: outputs_example_def len_def)
  ultimately show ?thesis by blast
qed

end
